theory Spec2Isabelle
  imports Main "HOL-Library.AList"
begin

section \<open>The schema translator\<close>

subsection \<open>Target schema (the model API's \<open>Schema\<close>)\<close>

text \<open>
  \<open>SchemaType\<close> is the enum of the generative-model API. A \<open>Schema\<close> is an object
  literal; a key that the code does not write is \<open>None\<close>. The code never writes
  \<open>required\<close>. \<open>properties\<close> is a JavaScript object filled by assignment
  \<open>obj[key] = v\<close>: an association list of its own keys, one entry per key, in
  insertion order. A string is a list of code units below 256.
\<close>

datatype SchemaType = STRING | NUMBER | INTEGER | BOOLEAN | ARRAY | OBJECT

datatype Schema = Schema
  (type: SchemaType)
  (description: "string option")
  (enum: "string list option")
  (format: "string option")
  (items: "Schema option")
  (properties: "(string \<times> Schema) list option")
  (required: "string list option")

subsection \<open>Source parameter types (the Zod classes tested with \<open>instanceof\<close>)\<close>

text \<open>
  One constructor per class that \<open>zodTypeToGoogleSchema\<close> tests for, and \<open>ZodOther\<close>
  for a value of any other class (a union, a literal, a plain object, ...).
  Every node has the getter \<open>description\<close> (\<open>undefined\<close> is \<open>None\<close>). A number node
  has \<open>_def.checks\<close>, which the code reads with \<open>?.\<close>, so it may be absent; of a check
  only \<open>kind\<close> is read. \<open>shape\<close> of an object node is a JavaScript object, given as the
  list of its entries in \<open>for ... in\<close> order. The default value of a \<open>ZodDefault\<close> is
  never read; it is kept as text.
\<close>

datatype ZodNumberCheck = ZodNumberCheck (kind: string)

datatype ZodTypeAny =
    ZodString "string option"
  | ZodNumber "string option" "ZodNumberCheck list option"
  | ZodBoolean "string option"
  | ZodEnum "string option" "string list"
  | ZodArray "string option" ZodTypeAny
  | ZodObject "string option" "(string \<times> ZodTypeAny) list"
  | ZodOptional "string option" ZodTypeAny
  | ZodNullable "string option" ZodTypeAny
  | ZodDefault "string option" ZodTypeAny string
  | ZodOther "string option"

fun zod_description :: "ZodTypeAny \<Rightarrow> string option" where
  "zod_description (ZodString d) = d"
| "zod_description (ZodNumber d cs) = d"
| "zod_description (ZodBoolean d) = d"
| "zod_description (ZodEnum d vs) = d"
| "zod_description (ZodArray d t) = d"
| "zod_description (ZodObject d shape) = d"
| "zod_description (ZodOptional d t) = d"
| "zod_description (ZodNullable d t) = d"
| "zod_description (ZodDefault d t v) = d"
| "zod_description (ZodOther d) = d"

subsection \<open>\<open>zodTypeToGoogleSchema\<close>\<close>

text \<open>
  The three \<open>if\<close> statements at the head of the function, in their order: one
  Optional/Nullable layer is removed, then one Default layer, then one
  Optional/Nullable layer again. Each is an \<open>if\<close>, not a loop.
\<close>

fun unwrap :: "ZodTypeAny \<Rightarrow> ZodTypeAny" where
  "unwrap (ZodOptional d t) = t"
| "unwrap (ZodNullable d t) = t"
| "unwrap t = t"

fun innerType :: "ZodTypeAny \<Rightarrow> ZodTypeAny" where
  "innerType (ZodDefault d t v) = t"
| "innerType t = t"

definition unwrapped :: "ZodTypeAny \<Rightarrow> ZodTypeAny" where
  "unwrapped zodType = unwrap (innerType (unwrap zodType))"

text \<open>\<open>checks?.some(ch => ch.kind === 'int')\<close>; \<open>undefined\<close> is falsy.\<close>

fun isInt :: "ZodNumberCheck list option \<Rightarrow> bool" where
  "isInt None = False"
| "isInt (Some checks) = list_ex (\<lambda>ch. kind ch = ''int'') checks"

lemma size_unwrap: "size (unwrap z) \<le> size z"
  by (cases z) auto

lemma size_innerType: "size (innerType z) \<le> size z"
  by (cases z) auto

lemma size_unwrapped: "size (unwrapped z) \<le> size z"
  unfolding unwrapped_def
  using size_unwrap [of "innerType (unwrap z)"] size_innerType [of "unwrap z"] size_unwrap [of z]
  by linarith

lemma size_shape_member:
  "(k, t) \<in> set shape \<Longrightarrow> size t < Suc (size_list (size_prod (\<lambda>x. 0) size) shape)"
  by (induction shape) auto

text \<open>
  The assignment \<open>obj[key] = value\<close> on an object that starts as the literal \<open>{}\<close>,
  with an object as value. An ordinary key is added, or overwritten in place. The key
  \<open>__proto__\<close> is the accessor of \<open>Object.prototype\<close>: assigning to it replaces the
  prototype of \<open>obj\<close> and adds no own key.
\<close>

definition set_property :: "string \<Rightarrow> 'v \<Rightarrow> (string \<times> 'v) list \<Rightarrow> (string \<times> 'v) list" where
  "set_property key v obj = (if key = ''__proto__'' then obj else AList.update key v obj)"

text \<open>
  The \<open>if ... else if\<close> chain over the unwrapped node. The object branch starts from
  \<open>properties: {}\<close> and assigns one key per iteration; the test for \<open>ZodOptional\<close> in
  that loop has an empty body. The last \<open>else\<close> reads the description of whatever
  node is left.
\<close>

function zodTypeToGoogleSchema :: "ZodTypeAny \<Rightarrow> Schema" where
  "zodTypeToGoogleSchema zodType =
     (case unwrapped zodType of
        ZodString d \<Rightarrow> Schema STRING d None None None None None
      | ZodNumber d checks \<Rightarrow>
          Schema (if isInt checks then INTEGER else NUMBER) d None None None None None
      | ZodBoolean d \<Rightarrow> Schema BOOLEAN d None None None None None
      | ZodEnum d vals \<Rightarrow> Schema STRING d (Some vals) (Some ''enum'') None None None
      | ZodArray d t \<Rightarrow>
          Schema ARRAY d None None (Some (zodTypeToGoogleSchema t)) None None
      | ZodObject d shape \<Rightarrow>
          Schema OBJECT d None None None
            (Some (fold (\<lambda>(key, t) props. set_property key (zodTypeToGoogleSchema t) props)
                     shape []))
            None
      | _ \<Rightarrow> Schema STRING (zod_description (unwrapped zodType)) None None None None None)"
  by pat_completeness auto
termination
proof (relation "measure size")
  show "wf (measure (size :: ZodTypeAny \<Rightarrow> nat))"
    by simp
next
  fix zodType d t
  assume "unwrapped zodType = ZodArray d t"
  with size_unwrapped [of zodType] show "(t, zodType) \<in> measure size"
    by simp
next
  fix zodType d shape kt key t
  assume u: "unwrapped zodType = ZodObject d shape"
    and m: "kt \<in> set shape" and kt: "(key, t) = kt"
  from m kt have "size t < Suc (size_list (size_prod (\<lambda>x. 0) size) shape)"
    using size_shape_member [of key t shape] by simp
  with u size_unwrapped [of zodType] show "(t, zodType) \<in> measure size"
    by simp
qed

declare zodTypeToGoogleSchema.simps [simp del]

text \<open>
  The node the specification classifies: every Optional, Nullable and Default layer
  removed, in any order and to any depth.
\<close>

fun fully_unwrapped :: "ZodTypeAny \<Rightarrow> ZodTypeAny" where
  "fully_unwrapped (ZodOptional d t) = fully_unwrapped t"
| "fully_unwrapped (ZodNullable d t) = fully_unwrapped t"
| "fully_unwrapped (ZodDefault d t v) = fully_unwrapped t"
| "fully_unwrapped t = t"

fun is_modifier :: "ZodTypeAny \<Rightarrow> bool" where
  "is_modifier (ZodOptional d t) = True"
| "is_modifier (ZodNullable d t) = True"
| "is_modifier (ZodDefault d t v) = True"
| "is_modifier t = False"

section \<open>The client\<close>

subsection \<open>Values exchanged with the collaborators\<close>

text \<open>
  A JavaScript exception is a value. The model session answers with a response whose
  \<open>text()\<close> is a string and whose \<open>functionCalls()\<close> may be \<open>undefined\<close>. The arguments
  of a function call are an object whose type is left open (\<open>'a\<close>). The result of a
  tool call has a content list; of an item only \<open>text\<close> is read, and it may be missing.
  Fields that several objects have under one name carry a prefix here: \<open>fc_name\<close> and
  \<open>fc_args\<close> of a function call, \<open>tool_name\<close> and \<open>tool_description\<close> of a listed tool,
  \<open>decl_name\<close> and \<open>decl_description\<close> of a declaration, \<open>response_text\<close> and
  \<open>item_text\<close> for the two \<open>text\<close>s; \<open>inputSchema_properties\<close> is
  \<open>tool.inputSchema.properties\<close>.
\<close>

datatype js_error = Error string | TypeError string

record 'a FunctionCall =
  fc_name :: string
  fc_args :: 'a

record 'a GenerateContentResponse =
  response_text :: string
  functionCalls :: "'a FunctionCall list option"

datatype ContentItem = ContentItem (item_text: "string option")

record CallToolResult =
  content :: "ContentItem list"

record Tool =
  tool_name :: string
  tool_description :: "string option"
  inputSchema_properties :: "(string \<times> ZodTypeAny) list option"

record FunctionDeclaration =
  decl_name :: string
  decl_description :: "string option"
  parameters :: Schema

record FunctionDeclarationsTool =
  functionDeclarations :: "FunctionDeclaration list"

record StdioClientTransport =
  command :: string
  args :: "string list"

record GenerativeModel =
  apiKey :: string
  model :: string

record process_env =
  GEMINI_API_KEY :: "string option"
  platform :: string
  execPath :: string

text \<open>
  What is written with \<open>console.log\<close> and \<open>console.error\<close>, in order. The prompt of
  \<open>rl.question\<close> goes through the readline interface and is not recorded.
\<close>

datatype console_entry =
    Log string
  | LogToolResult CallToolResult
  | LogConnected "string list"
  | LogConnectFailed js_error
  | ErrorLog js_error

subsection \<open>The collaborators\<close>

text \<open>
  The model session (state \<open>'s\<close>) and the tool provider's client (state \<open>'m\<close>) are not
  code of this program: their operations are parameters. An operation that is awaited
  returns its outcome (\<open>Inl\<close> a rejection) and the collaborator's next state.
  \<open>connect\<close> returns the outcome its promise settles with. \<open>JSON.stringify\<close> is the
  runtime's.
\<close>

record ('s, 'm, 'a) externals =
  startChat :: "GenerativeModel \<Rightarrow> string \<Rightarrow> FunctionDeclarationsTool list \<Rightarrow> 's"
  sendMessage :: "'s \<Rightarrow> string \<Rightarrow> (js_error + 'a GenerateContentResponse) \<times> 's"
  newClient :: "'m"
  connect :: "'m \<Rightarrow> StdioClientTransport \<Rightarrow> (js_error + unit) \<times> 'm"
  listTools :: "'m \<Rightarrow> (js_error + Tool list) \<times> 'm"
  callTool :: "'m \<Rightarrow> string \<Rightarrow> 'a \<Rightarrow> (js_error + CallToolResult) \<times> 'm"
  close :: "'m \<Rightarrow> (js_error + unit) \<times> 'm"
  stringify :: "'a \<Rightarrow> string"

subsection \<open>\<open>MCPClient\<close>\<close>

text \<open>
  The fields of the class, and the console beside them. \<open>session\<close> starts as the empty
  object \<open>{}\<close> (\<open>None\<close>), on which \<open>sendMessage\<close> is not a function.
\<close>

record ('s, 'm) MCPClient =
  mcp :: 'm
  gemini :: GenerativeModel
  session :: "'s option"
  transport :: "StdioClientTransport option"
  tools :: "FunctionDeclarationsTool list"
  console :: "console_entry list"

definition SERVER_PATHS :: "string list" where
  "SERVER_PATHS = [''/git/kaggle-nodejs-mcp-server/build/index.js'']"

definition SYSTEM_PROMPT :: string where
  "SYSTEM_PROMPT =
     ''You are an expert data analyst. Use the tools available to you to answer the user'' @ [CHR 0x27] @ ''s questions. '' @ [CHR 0x0A] @
     [CHR 0x0A] @
     ''If the user asks you to analyze a specific dataset (either to answer questions or generate a python notebook), you should fetch the metadata '' @ [CHR 0x0A] @
     ''for the provided dataset in order to answer the question.'' @ [CHR 0x0A] @
     [CHR 0x0A] @
     ''References to datasets and notebooks can be in the form of fully qualified URLs like https://www.kaggle.com/<resource>/<owner_slug>/<resource_slug> '' @ [CHR 0x0A] @
     ''or simply as a handle in the form of <owner_slug>/<resource_slug>.'' @ [CHR 0x0A] @
     [CHR 0x0A] @
     ''When generating a python notebook, keep in mind that all datasets are mounted in a '' @ [CHR 0x22] @ ''/kaggle/input'' @ [CHR 0x22] @ '' directory. For example, a notebook that has a '' @ [CHR 0x0A] @
     ''dataset called '' @ [CHR 0x22] @ ''my-amazing-dataset'' @ [CHR 0x22] @ '', with a '' @ [CHR 0x22] @ ''awesome-data.csv'' @ [CHR 0x22] @ '' inside would have the file located at '' @ [CHR 0x22] @ ''/kaggle/input/my-amazing-dataset/awesome-data.csv'' @ [CHR 0x22] @ ''. '' @ [CHR 0x0A] @
     ''Ensure that all references to files fit this pattern.''"

definition log :: "console_entry \<Rightarrow> ('s, 'm) MCPClient \<Rightarrow> ('s, 'm) MCPClient" where
  "log entry this = this\<lparr>console := console this @ [entry]\<rparr>"

text \<open>The constructor. An empty key is falsy as well.\<close>

definition new_MCPClient ::
  "('s, 'm, 'a) externals \<Rightarrow> process_env \<Rightarrow> js_error + ('s, 'm) MCPClient" where
  "new_MCPClient ext env =
     (case GEMINI_API_KEY env of
        None \<Rightarrow> Inl (Error ''GEMINI_API_KEY is not set'')
      | Some key \<Rightarrow>
          if key = [] then Inl (Error ''GEMINI_API_KEY is not set'')
          else Inr \<lparr>mcp = newClient ext,
                    gemini = \<lparr>apiKey = key, model = ''gemini-2.0-flash''\<rparr>,
                    session = None, transport = None, tools = [], console = []\<rparr>)"

subsection \<open>\<open>processTools\<close>\<close>

text \<open>
  One \<open>FunctionDeclarationsTool\<close> per listed tool, each with one declaration.
  \<open>googleProperties\<close> starts empty and gets one assignment per own key of
  \<open>tool.inputSchema.properties\<close>, when that is present.
\<close>

definition googleProperties :: "Tool \<Rightarrow> (string \<times> Schema) list" where
  "googleProperties tool =
     (case inputSchema_properties tool of
        None \<Rightarrow> []
      | Some inputProperties \<Rightarrow>
          fold (\<lambda>(key, t) props. set_property key (zodTypeToGoogleSchema t) props)
            inputProperties [])"

definition googleTool :: "Tool \<Rightarrow> FunctionDeclarationsTool" where
  "googleTool tool =
     (let googleParameters =
            Schema OBJECT (tool_description tool) None None None
              (Some (googleProperties tool)) None;
          funcDecl = \<lparr>decl_name = tool_name tool,
                      decl_description = tool_description tool,
                      parameters = googleParameters\<rparr>
      in \<lparr>functionDeclarations = [funcDecl]\<rparr>)"

definition processTools ::
  "('s, 'm, 'a) externals \<Rightarrow> 'm \<Rightarrow> (js_error + FunctionDeclarationsTool list) \<times> 'm" where
  "processTools ext m =
     (case listTools ext m of
        (Inl e, m') \<Rightarrow> (Inl e, m')
      | (Inr toolsResult, m') \<Rightarrow> (Inr (map googleTool toolsResult), m'))"

subsection \<open>\<open>connectToServer\<close>\<close>

definition endsWith :: "string \<Rightarrow> string \<Rightarrow> bool" where
  "endsWith s suffix \<longleftrightarrow>
     length suffix \<le> length s \<and> drop (length s - length suffix) s = suffix"

text \<open>
  \<open>this.tools.map(t => t.functionDeclarations?.[0].name)\<close>: the first declaration's
  name; on an empty declaration list \<open>[0]\<close> is \<open>undefined\<close> and reading \<open>name\<close> throws.
\<close>

fun first_names :: "FunctionDeclarationsTool list \<Rightarrow> js_error + string list" where
  "first_names [] = Inr []"
| "first_names (t # ts) =
     (case functionDeclarations t of
        [] \<Rightarrow> Inl (TypeError ''Cannot read properties of undefined (reading name)'')
      | d # ds \<Rightarrow>
          (case first_names ts of
             Inl e \<Rightarrow> Inl e
           | Inr names \<Rightarrow> Inr (decl_name d # names)))"

text \<open>The \<open>catch\<close> block: the error is logged and thrown again.\<close>

definition connect_failed ::
  "js_error \<Rightarrow> ('s, 'm) MCPClient \<Rightarrow> (js_error + unit) \<times> ('s, 'm) MCPClient" where
  "connect_failed e this = (Inl e, log (LogConnectFailed e) this)"

text \<open>
  The body of the \<open>try\<close>. \<open>this.mcp.connect(this.transport)\<close> is called without
  \<open>await\<close> and its promise is dropped: the outcome it settles with takes no part in
  what follows, only the client's state after the call does.
\<close>

definition connectToServer ::
  "('s, 'm, 'a) externals \<Rightarrow> process_env \<Rightarrow> ('s, 'm) MCPClient \<Rightarrow> string
     \<Rightarrow> (js_error + unit) \<times> ('s, 'm) MCPClient" where
  "connectToServer ext env this serverScriptPath =
     (let isJs = endsWith serverScriptPath ''.js'';
          isPy = endsWith serverScriptPath ''.py''
      in if \<not> isJs \<and> \<not> isPy
         then connect_failed (Error ''Server script must be a .js or .py file'') this
         else
           let command = (if isPy
                          then (if platform env = ''win32'' then ''python'' else ''python3'')
                          else execPath env);
               t = \<lparr>command = command, args = [serverScriptPath]\<rparr>;
               this1 = this\<lparr>transport := Some t\<rparr>;
               this2 = this1\<lparr>mcp := snd (connect ext (mcp this1) t)\<rparr>
           in case processTools ext (mcp this2) of
                (Inl e, m) \<Rightarrow> connect_failed e (this2\<lparr>mcp := m\<rparr>)
              | (Inr googleTools, m) \<Rightarrow>
                  let this3 = this2\<lparr>mcp := m, tools := googleTools\<rparr>;
                      this4 = this3\<lparr>session :=
                                Some (startChat ext (gemini this3) SYSTEM_PROMPT (tools this3))\<rparr>
                  in (case first_names (tools this4) of
                        Inl e \<Rightarrow> connect_failed e this4
                      | Inr names \<Rightarrow> (Inr (), log (LogConnected names) this4)))"

subsection \<open>\<open>processQuery\<close>\<close>

definition newline :: string where
  "newline = [CHR 0x0A]"

text \<open>\<open>Array.prototype.join\<close>.\<close>

fun join :: "string \<Rightarrow> string list \<Rightarrow> string" where
  "join sep [] = []"
| "join sep [x] = x"
| "join sep (x # y # zs) = x @ sep @ join sep (y # zs)"

definition calling_line :: "('s, 'm, 'a) externals \<Rightarrow> 'a FunctionCall \<Rightarrow> string" where
  "calling_line ext functionCall =
     ''[Calling tool '' @ fc_name functionCall @ '' with args ''
       @ stringify ext (fc_args functionCall) @ '']''"

text \<open>
  The message that carries a tool result back: the template reads \<open>content[0].text\<close>,
  and a missing \<open>text\<close> is printed as \<open>undefined\<close>.
\<close>

definition result_message :: "ContentItem \<Rightarrow> string" where
  "result_message item =
     ''Using the following information, answer the original query: ''
       @ (case item_text item of None \<Rightarrow> ''undefined'' | Some t \<Rightarrow> t)"

definition session_sendMessage ::
  "('s, 'm, 'a) externals \<Rightarrow> ('s, 'm) MCPClient \<Rightarrow> string
     \<Rightarrow> (js_error + 'a GenerateContentResponse) \<times> ('s, 'm) MCPClient" where
  "session_sendMessage ext this message =
     (case session this of
        None \<Rightarrow> (Inl (TypeError ''this.session.sendMessage is not a function''), this)
      | Some s \<Rightarrow>
          (case sendMessage ext s message of
             (r, s') \<Rightarrow> (r, this\<lparr>session := Some s'\<rparr>)))"

definition mcp_callTool ::
  "('s, 'm, 'a) externals \<Rightarrow> ('s, 'm) MCPClient \<Rightarrow> string \<Rightarrow> 'a
     \<Rightarrow> (js_error + CallToolResult) \<times> ('s, 'm) MCPClient" where
  "mcp_callTool ext this toolName toolArgs =
     (case callTool ext (mcp this) toolName toolArgs of
        (r, m') \<Rightarrow> (r, this\<lparr>mcp := m'\<rparr>))"

text \<open>
  The \<open>for ... of\<close> loop over the requested calls, with \<open>finalText\<close> as accumulator.
  Nothing is caught: the first failure leaves the loop and the function.
\<close>

fun processCalls ::
  "('s, 'm, 'a) externals \<Rightarrow> 'a FunctionCall list \<Rightarrow> string list \<Rightarrow> ('s, 'm) MCPClient
     \<Rightarrow> (js_error + string list) \<times> ('s, 'm) MCPClient" where
  "processCalls ext [] finalText this = (Inr finalText, this)"
| "processCalls ext (functionCall # rest) finalText this =
     (let toolName = fc_name functionCall;
          toolArgs = fc_args functionCall;
          finalText1 = finalText @ [calling_line ext functionCall]
      in case mcp_callTool ext this toolName toolArgs of
           (Inl e, this1) \<Rightarrow> (Inl e, this1)
         | (Inr result, this1) \<Rightarrow>
             let this2 = log (LogToolResult result) this1
             in (case content result of
                   [] \<Rightarrow> (Inl (TypeError ''Cannot read properties of undefined (reading text)''),
                          this2)
                 | item # others \<Rightarrow>
                     (case session_sendMessage ext this2 (result_message item) of
                        (Inl e, this3) \<Rightarrow> (Inl e, this3)
                      | (Inr geminiResult, this3) \<Rightarrow>
                          processCalls ext rest (finalText1 @ [response_text geminiResult]) this3)))"

text \<open>\<open>result.response.functionCalls() ?? []\<close>.\<close>

definition requested :: "'a GenerateContentResponse \<Rightarrow> 'a FunctionCall list" where
  "requested result = (case functionCalls result of None \<Rightarrow> [] | Some calls \<Rightarrow> calls)"

definition processQuery ::
  "('s, 'm, 'a) externals \<Rightarrow> ('s, 'm) MCPClient \<Rightarrow> string
     \<Rightarrow> (js_error + string) \<times> ('s, 'm) MCPClient" where
  "processQuery ext this query =
     (case session_sendMessage ext this query of
        (Inl e, this1) \<Rightarrow> (Inl e, this1)
      | (Inr result, this1) \<Rightarrow>
          (case processCalls ext (requested result) [response_text result] this1 of
             (Inl e, this2) \<Rightarrow> (Inl e, this2)
           | (Inr finalText, this2) \<Rightarrow> (Inr (join newline finalText), this2)))"

subsection \<open>\<open>chatLoop\<close>, \<open>cleanup\<close> and \<open>main\<close>\<close>

text \<open>
  \<open>toLowerCase\<close> and \<open>trim\<close> on strings of code units below 256, the Latin-1 range.
  \<open>toLowerCase\<close> lowers the letters \<open>A\<close> to \<open>Z\<close> and the capital letters U+00C0 to
  U+00DE (U+00D7, the multiplication sign, is no letter). \<open>trim\<close> removes from both
  ends the white space and the line terminators of the range: tab, line feed,
  vertical tab, form feed, carriage return, space and the no-break space U+00A0.
  The other characters that \<open>trim\<close> removes (U+FEFF and the spaces from U+1680 on)
  lie above the range.
\<close>

definition lower_unit :: "char \<Rightarrow> char" where
  "lower_unit c =
     (if (65 \<le> (of_char c :: nat) \<and> (of_char c :: nat) \<le> 90)
         \<or> (192 \<le> (of_char c :: nat) \<and> (of_char c :: nat) \<le> 222
             \<and> (of_char c :: nat) \<noteq> 215)
      then char_of ((of_char c :: nat) + 32) else c)"

definition toLowerCase :: "string \<Rightarrow> string" where
  "toLowerCase s = map lower_unit s"

definition is_whitespace :: "char \<Rightarrow> bool" where
  "is_whitespace c \<longleftrightarrow> (of_char c :: nat) \<in> {9, 10, 11, 12, 13, 32, 160}"

definition trim :: "string \<Rightarrow> string" where
  "trim s = rev (dropWhile is_whitespace (rev (dropWhile is_whitespace s)))"

definition is_quit :: "string \<Rightarrow> bool" where
  "is_quit message \<longleftrightarrow> trim (toLowerCase message) = ''quit''"

text \<open>
  The standard input is the list of the lines that will ever be entered. The loop
  takes one line per iteration; when none is left, \<open>rl.question\<close> never answers and
  the loop is left waiting. The result carries the lines that were not read.
\<close>

datatype loop_end = Break | Threw js_error | AwaitingInput

fun chatLoop_while ::
  "('s, 'm, 'a) externals \<Rightarrow> string list \<Rightarrow> ('s, 'm) MCPClient
     \<Rightarrow> loop_end \<times> string list \<times> ('s, 'm) MCPClient" where
  "chatLoop_while ext [] this = (AwaitingInput, [], this)"
| "chatLoop_while ext (message # rest) this =
     (if is_quit message then (Break, rest, this)
      else case processQuery ext this message of
             (Inl e, this1) \<Rightarrow> (Threw e, rest, this1)
           | (Inr response, this1) \<Rightarrow>
               chatLoop_while ext rest (log (Log (newline @ response)) this1))"

text \<open>
  \<open>chatLoop\<close>: the line reader \<open>rl\<close> is created, then come the two opening lines, the
  loop, the \<open>catch\<close> that logs the error, and the \<open>finally\<close> that closes the reader.
  It returns normally after a \<open>quit\<close> and after a caught error alike; while the loop
  waits, the \<open>finally\<close> block is not reached and the reader stays open. The result
  carries the state of the reader.
\<close>

datatype chat_end = Returned | Waiting

datatype Interface = ReaderOpen | ReaderClosed

definition chatLoop_started :: "('s, 'm) MCPClient \<Rightarrow> ('s, 'm) MCPClient" where
  "chatLoop_started this =
     log (Log (''Type your queries or '' @ [CHR 0x27] @ ''quit'' @ [CHR 0x27] @ '' to exit.''))
       (log (Log (newline @ ''MCP Client Started!'')) this)"

definition chatLoop ::
  "('s, 'm, 'a) externals \<Rightarrow> string list \<Rightarrow> ('s, 'm) MCPClient
     \<Rightarrow> chat_end \<times> string list \<times> Interface \<times> ('s, 'm) MCPClient" where
  "chatLoop ext lines this =
     (let rl = ReaderOpen
      in case chatLoop_while ext lines (chatLoop_started this) of
           (Break, rest, this1) \<Rightarrow> (Returned, rest, ReaderClosed, this1)
         | (Threw err, rest, this1) \<Rightarrow> (Returned, rest, ReaderClosed, log (ErrorLog err) this1)
         | (AwaitingInput, rest, this1) \<Rightarrow> (Waiting, rest, rl, this1))"

definition cleanup ::
  "('s, 'm, 'a) externals \<Rightarrow> ('s, 'm) MCPClient \<Rightarrow> (js_error + unit) \<times> ('s, 'm) MCPClient" where
  "cleanup ext this =
     (case close ext (mcp this) of (r, m') \<Rightarrow> (r, this\<lparr>mcp := m'\<rparr>))"

fun connectAll ::
  "('s, 'm, 'a) externals \<Rightarrow> process_env \<Rightarrow> string list \<Rightarrow> ('s, 'm) MCPClient
     \<Rightarrow> (js_error + unit) \<times> ('s, 'm) MCPClient" where
  "connectAll ext env [] this = (Inr (), this)"
| "connectAll ext env (path # paths) this =
     (case connectToServer ext env this path of
        (Inl e, this1) \<Rightarrow> (Inl e, this1)
      | (Inr u, this1) \<Rightarrow> connectAll ext env paths this1)"

text \<open>
  The promise that \<open>connectToServer\<close> drops: the rejection that
  \<open>this.mcp.connect(this.transport)\<close> settles with, when the call is reached, and
  the rejections dropped along the \<open>for\<close> loop of \<open>main\<close>.
\<close>

definition dropped_connect ::
  "('s, 'm, 'a) externals \<Rightarrow> process_env \<Rightarrow> ('s, 'm) MCPClient \<Rightarrow> string
     \<Rightarrow> js_error option" where
  "dropped_connect ext env this serverScriptPath =
     (let isJs = endsWith serverScriptPath ''.js'';
          isPy = endsWith serverScriptPath ''.py''
      in if \<not> isJs \<and> \<not> isPy then None
         else
           let command = (if isPy
                          then (if platform env = ''win32'' then ''python'' else ''python3'')
                          else execPath env);
               t = \<lparr>command = command, args = [serverScriptPath]\<rparr>
           in (case fst (connect ext (mcp this) t) of
                 Inl e \<Rightarrow> Some e
               | Inr u \<Rightarrow> None))"

fun dropped_rejections ::
  "('s, 'm, 'a) externals \<Rightarrow> process_env \<Rightarrow> string list \<Rightarrow> ('s, 'm) MCPClient
     \<Rightarrow> js_error list" where
  "dropped_rejections ext env [] this = []"
| "dropped_rejections ext env (path # paths) this =
     (case dropped_connect ext env this path of None \<Rightarrow> [] | Some e \<Rightarrow> [e])
     @ (case connectToServer ext env this path of
          (Inl e, this1) \<Rightarrow> []
        | (Inr u, this1) \<Rightarrow> dropped_rejections ext env paths this1)"

text \<open>
  How the process ends. \<open>main()\<close> is called without a handler: an error that leaves
  it is an unhandled rejection, whose exit code is the runtime's. The \<open>finally\<close> block
  runs \<open>cleanup\<close> and then \<open>process.exit(0)\<close>, whatever the \<open>try\<close> block did; an error
  of \<open>cleanup\<close> leaves \<open>main\<close> before \<open>process.exit\<close>. While the loop waits for a
  line that never comes the process is still running.

  A rejection of a dropped \<open>connect\<close> promise is an unhandled rejection too. The
  runtime reports it when the program next goes back to the event loop, which it
  does at the latest at the first \<open>rl.question\<close>: after a startup that succeeded the
  process ends there, the opening lines written and no line read. After a startup
  that failed, \<open>main\<close> is followed to its \<open>finally\<close> block; whether the runtime gets
  ahead of it depends on the collaborators, and no theorem below speaks of that case.
\<close>

datatype process_end = Exited nat | UnhandledRejection js_error | StillRunning

definition main_finally ::
  "('s, 'm, 'a) externals \<Rightarrow> ('s, 'm) MCPClient \<Rightarrow> process_end \<times> ('s, 'm) MCPClient option" where
  "main_finally ext this =
     (case cleanup ext this of
        (Inl e, this1) \<Rightarrow> (UnhandledRejection e, Some this1)
      | (Inr u, this1) \<Rightarrow> (Exited 0, Some this1))"

definition main ::
  "('s, 'm, 'a) externals \<Rightarrow> process_env \<Rightarrow> string list
     \<Rightarrow> process_end \<times> ('s, 'm) MCPClient option" where
  "main ext env lines =
     (case new_MCPClient ext env of
        Inl e \<Rightarrow> (UnhandledRejection e, None)
      | Inr mcpClient \<Rightarrow>
          (case connectAll ext env SERVER_PATHS mcpClient of
             (Inl e, this1) \<Rightarrow> main_finally ext this1
           | (Inr u, this1) \<Rightarrow>
               (case dropped_rejections ext env SERVER_PATHS mcpClient of
                  e # es \<Rightarrow> (UnhandledRejection e, Some (chatLoop_started this1))
                | [] \<Rightarrow>
                    (case chatLoop ext lines this1 of
                       (Waiting, rest, rl, this2) \<Rightarrow> (StillRunning, Some this2)
                     | (Returned, rest, rl, this2) \<Rightarrow> main_finally ext this2))))"

section \<open>Specification vocabulary\<close>

text \<open>
  The rounds of a query as the specification tells them: for each call of the
  response, in the order of the response, the provider is invoked with the call's
  name and arguments, the text of the first content item of its result is sent into
  the same session, framed as information to answer the original query with, and the
  round contributes two segments: the line that names the tool and its arguments,
  and the text of the session's answer. \<open>tool_rounds ext this calls segments this'\<close>
  holds when every round succeeds.
\<close>

inductive tool_rounds ::
  "('s, 'm, 'a) externals \<Rightarrow> ('s, 'm) MCPClient \<Rightarrow> 'a FunctionCall list \<Rightarrow> string list
     \<Rightarrow> ('s, 'm) MCPClient \<Rightarrow> bool"
  for ext :: "('s, 'm, 'a) externals" where
  no_calls: "tool_rounds ext this [] [] this"
| round:
  "callTool ext (mcp this) (fc_name fc) (fc_args fc) = (Inr result, m1) \<Longrightarrow>
   content result = item # others \<Longrightarrow>
   session this = Some s \<Longrightarrow>
   sendMessage ext s
     (''Using the following information, answer the original query: ''
        @ (case item_text item of None \<Rightarrow> ''undefined'' | Some t \<Rightarrow> t))
     = (Inr followup, s1) \<Longrightarrow>
   tool_rounds ext
     (this\<lparr>mcp := m1, console := console this @ [LogToolResult result], session := Some s1\<rparr>)
     fcs segments this' \<Longrightarrow>
   tool_rounds ext this (fc # fcs)
     ((''[Calling tool '' @ fc_name fc @ '' with args '' @ stringify ext (fc_args fc) @ '']'')
        # response_text followup # segments) this'"

code_pred tool_rounds .

inductive_cases tool_rounds_nilE: "tool_rounds ext this [] segments this'"

text \<open>
  The properties the specification expects in a tool's declaration: each entry of the
  tool's parameter map, translated.
\<close>

definition declared_properties :: "Tool \<Rightarrow> (string \<times> Schema) list" where
  "declared_properties tool =
     (case inputSchema_properties tool of
        None \<Rightarrow> []
      | Some props \<Rightarrow> map (\<lambda>(key, t). (key, zodTypeToGoogleSchema t)) props)"

text \<open>
  A tool-provider invocation or a model-session call fails during a query: the first
  message is rejected, or, after some rounds that succeed, the next call to the
  provider is rejected, or the message that carries its result is.
\<close>

inductive invocation_fails ::
  "('s, 'm, 'a) externals \<Rightarrow> ('s, 'm) MCPClient \<Rightarrow> string \<Rightarrow> js_error \<Rightarrow> bool"
  for ext :: "('s, 'm, 'a) externals" where
  first_message:
  "session this = Some s \<Longrightarrow>
   sendMessage ext s query = (Inl e, s1) \<Longrightarrow>
   invocation_fails ext this query e"
| tool_call:
  "session this = Some s \<Longrightarrow>
   sendMessage ext s query = (Inr result, s1) \<Longrightarrow>
   (case functionCalls result of None \<Rightarrow> [] | Some calls \<Rightarrow> calls) = before @ fc # after \<Longrightarrow>
   tool_rounds ext (this\<lparr>session := Some s1\<rparr>) before segments this1 \<Longrightarrow>
   callTool ext (mcp this1) (fc_name fc) (fc_args fc) = (Inl e, m1) \<Longrightarrow>
   invocation_fails ext this query e"
| follow_up:
  "session this = Some s \<Longrightarrow>
   sendMessage ext s query = (Inr result, s1) \<Longrightarrow>
   (case functionCalls result of None \<Rightarrow> [] | Some calls \<Rightarrow> calls) = before @ fc # after \<Longrightarrow>
   tool_rounds ext (this\<lparr>session := Some s1\<rparr>) before segments this1 \<Longrightarrow>
   callTool ext (mcp this1) (fc_name fc) (fc_args fc) = (Inr toolResult, m1) \<Longrightarrow>
   content toolResult = item # others \<Longrightarrow>
   session this1 = Some s2 \<Longrightarrow>
   sendMessage ext s2
     (''Using the following information, answer the original query: ''
        @ (case item_text item of None \<Rightarrow> ''undefined'' | Some t \<Rightarrow> t))
     = (Inl e, s3) \<Longrightarrow>
   invocation_fails ext this query e"

code_pred invocation_fails .

text \<open>
  A line is \<open>quit\<close> when, white space at both ends apart, it is one of the letters
  \<open>q\<close> or \<open>Q\<close>, then \<open>u\<close> or \<open>U\<close>, then \<open>i\<close> or \<open>I\<close>, then \<open>t\<close> or \<open>T\<close>.
\<close>

definition white_space :: "char set" where
  "white_space = {CHR 0x09, CHR 0x0A, CHR 0x0B, CHR 0x0C, CHR 0x0D, CHR '' '', CHR 0xA0}"

definition quit_line :: "string \<Rightarrow> bool" where
  "quit_line line \<longleftrightarrow>
     (\<exists>front q u i t back. line = front @ [q, u, i, t] @ back
        \<and> set front \<subseteq> white_space \<and> set back \<subseteq> white_space
        \<and> q \<in> {CHR ''q'', CHR ''Q''} \<and> u \<in> {CHR ''u'', CHR ''U''}
        \<and> i \<in> {CHR ''i'', CHR ''I''} \<and> t \<in> {CHR ''t'', CHR ''T''})"

text \<open>
  The state in which the first line is asked for: the two opening lines are on the
  console.
\<close>

definition opened :: "('s, 'm) MCPClient \<Rightarrow> ('s, 'm) MCPClient" where
  "opened this =
     this\<lparr>console := console this
        @ [Log ([CHR 0x0A] @ ''MCP Client Started!''),
           Log (''Type your queries or '' @ [CHR 0x27] @ ''quit'' @ [CHR 0x27] @ '' to exit.'')]\<rparr>"

text \<open>
  The queries of the lines \<open>before\<close> are answered, one after the other, each answer
  written to the console after a line break: none of the lines is \<open>quit\<close> and none
  of the queries fails.
\<close>

inductive answered ::
  "('s, 'm, 'a) externals \<Rightarrow> ('s, 'm) MCPClient \<Rightarrow> string list \<Rightarrow> ('s, 'm) MCPClient \<Rightarrow> bool"
  for ext :: "('s, 'm, 'a) externals" where
  none: "answered ext this [] this"
| one:
  "\<not> quit_line message \<Longrightarrow>
   processQuery ext this message = (Inr response, this1) \<Longrightarrow>
   answered ext (this1\<lparr>console := console this1 @ [Log ([CHR 0x0A] @ response)]\<rparr>) rest this' \<Longrightarrow>
   answered ext this (message # rest) this'"

text \<open>
  The end the specification gives a run that closes the provider connection: the
  connection is closed and the process exits with code 0. An error of the closing
  is the one thing that can come between.
\<close>

definition closed_then_exit ::
  "('s, 'm, 'a) externals \<Rightarrow> ('s, 'm) MCPClient \<Rightarrow> process_end \<times> ('s, 'm) MCPClient option" where
  "closed_then_exit ext this =
     (case close ext (mcp this) of
        (Inl e, m) \<Rightarrow> (UnhandledRejection e, Some (this\<lparr>mcp := m\<rparr>))
      | (Inr u, m) \<Rightarrow> (Exited 0, Some (this\<lparr>mcp := m\<rparr>)))"

subsection \<open>A provider and a session to run the client on\<close>

text \<open>
  One tool, \<open>get_dataset_metadata(name: String)\<close>. The session asks for that tool on its
  first message and answers in plain text afterwards. The provider's state counts
  the operations performed on it; what \<open>connect\<close>, \<open>listTools\<close> and \<open>callTool\<close> settle
  with is chosen by the three arguments of \<open>stub\<close>.
\<close>

definition demo_tool :: Tool where
  "demo_tool = \<lparr>tool_name = ''get_dataset_metadata'',
                 tool_description = Some ''Fetch the metadata of a dataset'',
                 inputSchema_properties = Some [(''name'', ZodString None)]\<rparr>"

definition demo_call :: "string FunctionCall" where
  "demo_call = \<lparr>fc_name = ''get_dataset_metadata'', fc_args = ''{name:X}''\<rparr>"

definition demo_result :: CallToolResult where
  "demo_result = \<lparr>content = [ContentItem (Some ''3 files'')]\<rparr>"

definition stub_sendMessage ::
  "nat \<Rightarrow> string \<Rightarrow> (js_error + string GenerateContentResponse) \<times> nat" where
  "stub_sendMessage s message =
     (if s = 0
      then (Inr \<lparr>response_text = ''Let me look.'', functionCalls = Some [demo_call]\<rparr>, Suc s)
      else (Inr \<lparr>response_text = ''X has 3 files.'', functionCalls = None\<rparr>, Suc s))"

definition stub ::
  "(js_error + unit) \<Rightarrow> (js_error + Tool list) \<Rightarrow> (js_error + CallToolResult)
     \<Rightarrow> (nat, nat, string) externals" where
  "stub connected listed called =
     \<lparr>startChat = (\<lambda>g p ts. 0),
      sendMessage = stub_sendMessage,
      newClient = 0,
      connect = (\<lambda>m t. (connected, Suc m)),
      listTools = (\<lambda>m. (listed, Suc m)),
      callTool = (\<lambda>m n a. (called, Suc m)),
      close = (\<lambda>m. (Inr (), Suc m)),
      stringify = (\<lambda>a. a)\<rparr>"

definition demo_client :: "nat \<Rightarrow> (nat, nat) MCPClient" where
  "demo_client s = \<lparr>mcp = 0, gemini = \<lparr>apiKey = ''key'', model = ''gemini-2.0-flash''\<rparr>,
                    session = Some s, transport = None, tools = [], console = []\<rparr>"

definition demo_env :: process_env where
  "demo_env = \<lparr>GEMINI_API_KEY = Some ''key'', platform = ''linux'',
                execPath = ''/usr/bin/node''\<rparr>"

definition fresh_client :: "(nat, nat) MCPClient" where
  "fresh_client = \<lparr>mcp = 0, gemini = \<lparr>apiKey = ''key'', model = ''gemini-2.0-flash''\<rparr>,
                    session = None, transport = None, tools = [], console = []\<rparr>"

text \<open>
  A second pair. The session asks for two tools on its first message and, on every
  later message, answers with as many \<open>#\<close> as it has received messages, followed by
  the message itself. The provider answers a call with the name and the arguments of
  the call.
\<close>

definition echo_calls :: "string FunctionCall list" where
  "echo_calls = [\<lparr>fc_name = ''get_dataset_metadata'', fc_args = ''{name:X}''\<rparr>,
                 \<lparr>fc_name = ''list_files'', fc_args = ''{dir:/}''\<rparr>]"

definition echo_sendMessage ::
  "nat \<Rightarrow> string \<Rightarrow> (js_error + string GenerateContentResponse) \<times> nat" where
  "echo_sendMessage s message =
     (if s = 0
      then (Inr \<lparr>response_text = ''Let me look.'', functionCalls = Some echo_calls\<rparr>, Suc s)
      else (Inr \<lparr>response_text = replicate s (CHR ''#'') @ message, functionCalls = None\<rparr>,
            Suc s))"

definition echo :: "(nat, nat, string) externals" where
  "echo =
     \<lparr>startChat = (\<lambda>g p ts. 0),
      sendMessage = echo_sendMessage,
      newClient = 0,
      connect = (\<lambda>m t. (Inr (), Suc m)),
      listTools = (\<lambda>m. (Inr [demo_tool], Suc m)),
      callTool = (\<lambda>m n a. (Inr \<lparr>content = [ContentItem (Some (n @ a))]\<rparr>, Suc m)),
      close = (\<lambda>m. (Inr (), Suc m)),
      stringify = (\<lambda>a. a)\<rparr>"

text \<open>
  A third pair. The session asks for the two tools whenever the message is
  \<open>describe dataset X\<close> and repeats any other message; the provider rejects every
  call of \<open>list_files\<close>.
\<close>

definition flaky_sendMessage ::
  "nat \<Rightarrow> string \<Rightarrow> (js_error + string GenerateContentResponse) \<times> nat" where
  "flaky_sendMessage s message =
     (if message = ''describe dataset X''
      then (Inr \<lparr>response_text = ''Let me look.'', functionCalls = Some echo_calls\<rparr>, Suc s)
      else (Inr \<lparr>response_text = replicate s (CHR ''#'') @ message, functionCalls = None\<rparr>,
            Suc s))"

definition flaky :: "(nat, nat, string) externals" where
  "flaky =
     \<lparr>startChat = (\<lambda>g p ts. 0),
      sendMessage = flaky_sendMessage,
      newClient = 0,
      connect = (\<lambda>m t. (Inr (), Suc m)),
      listTools = (\<lambda>m. (Inr [demo_tool], Suc m)),
      callTool = (\<lambda>m n a. if n = ''list_files''
                           then (Inl (Error ''tool failed''), Suc m)
                           else (Inr \<lparr>content = [ContentItem (Some (n @ a))]\<rparr>, Suc m)),
      close = (\<lambda>m. (Inr (), Suc m)),
      stringify = (\<lambda>a. a)\<rparr>"

text \<open>A tool with a parameter named \<open>__proto__\<close> beside an ordinary one.\<close>

definition proto_tool :: Tool where
  "proto_tool = \<lparr>tool_name = ''lookup'',
                  tool_description = Some ''Look a record up'',
                  inputSchema_properties =
                    Some [(''id'', ZodString None), (''__proto__'', ZodString None)]\<rparr>"

section \<open>Verification\<close>

subsection \<open>Facts about the translator\<close>

lemma fully_unwrapped_unwrap: "fully_unwrapped (unwrap z) = fully_unwrapped z"
  by (cases z) auto

lemma fully_unwrapped_innerType: "fully_unwrapped (innerType z) = fully_unwrapped z"
  by (cases z) auto

lemma fully_unwrapped_unwrapped: "fully_unwrapped (unwrapped z) = fully_unwrapped z"
  by (simp add: unwrapped_def fully_unwrapped_unwrap fully_unwrapped_innerType)

lemma fully_unwrapped_base: "\<not> is_modifier z \<Longrightarrow> fully_unwrapped z = z"
  by (cases z) auto

lemma translate_base:
  "zodTypeToGoogleSchema (ZodString d) = Schema STRING d None None None None None"
  "zodTypeToGoogleSchema (ZodNumber d checks) =
     Schema (if isInt checks then INTEGER else NUMBER) d None None None None None"
  "zodTypeToGoogleSchema (ZodBoolean d) = Schema BOOLEAN d None None None None None"
  "zodTypeToGoogleSchema (ZodEnum d vals) =
     Schema STRING d (Some vals) (Some ''enum'') None None None"
  "zodTypeToGoogleSchema (ZodArray d t) =
     Schema ARRAY d None None (Some (zodTypeToGoogleSchema t)) None None"
  "zodTypeToGoogleSchema (ZodObject d shape) =
     Schema OBJECT d None None None
       (Some (fold (\<lambda>(key, t) props. set_property key (zodTypeToGoogleSchema t) props) shape []))
       None"
  "zodTypeToGoogleSchema (ZodOther d) = Schema STRING d None None None None None"
  by (simp_all add: zodTypeToGoogleSchema.simps [of "ZodString d"]
      zodTypeToGoogleSchema.simps [of "ZodNumber d checks"]
      zodTypeToGoogleSchema.simps [of "ZodBoolean d"]
      zodTypeToGoogleSchema.simps [of "ZodEnum d vals"]
      zodTypeToGoogleSchema.simps [of "ZodArray d t"]
      zodTypeToGoogleSchema.simps [of "ZodObject d shape"]
      zodTypeToGoogleSchema.simps [of "ZodOther d"] unwrapped_def)

lemma translate_unwrapped_base:
  "\<not> is_modifier (unwrapped z) \<Longrightarrow>
   zodTypeToGoogleSchema z = zodTypeToGoogleSchema (unwrapped z)"
  by (cases "unwrapped z") (simp_all add: zodTypeToGoogleSchema.simps [of z] translate_base)

lemma translate_unwrapped_modifier:
  "is_modifier (unwrapped z) \<Longrightarrow>
   zodTypeToGoogleSchema z =
     Schema STRING (zod_description (unwrapped z)) None None None None None"
  by (cases "unwrapped z") (simp_all add: zodTypeToGoogleSchema.simps [of z])

text \<open>
  Whenever the three unwrapping steps do reach a base kind, the result is that of the
  fully unwrapped node: the chains the code handles are those with at most one
  Optional/Nullable layer, then at most one Default layer, then at most one
  Optional/Nullable layer.
\<close>

lemma invariance_when_unwrapped_is_base:
  assumes "\<not> is_modifier (unwrapped z)"
  shows "zodTypeToGoogleSchema z = zodTypeToGoogleSchema (fully_unwrapped z)"
proof -
  have "fully_unwrapped (unwrapped z) = unwrapped z"
    using assms by (rule fully_unwrapped_base)
  then have e: "fully_unwrapped z = unwrapped z"
    by (simp add: fully_unwrapped_unwrapped)
  show ?thesis
    unfolding e using assms by (rule translate_unwrapped_base)
qed

lemma update_fresh_key:
  "k \<notin> fst ` set acc \<Longrightarrow> AList.update k v acc = acc @ [(k, v)]"
  by (induction acc) auto

lemma fold_set_property_distinct:
  "distinct (map fst xs) \<Longrightarrow> fst ` set acc \<inter> fst ` set xs = {} \<Longrightarrow>
   fold (\<lambda>(key, t) props. set_property key (f t) props) xs acc
     = acc @ map (\<lambda>(key, t). (key, f t)) (filter (\<lambda>(key, t). key \<noteq> ''__proto__'') xs)"
proof (induction xs arbitrary: acc)
  case Nil
  then show ?case by simp
next
  case (Cons x xs)
  obtain k t where x: "x = (k, t)" by (cases x)
  have d: "distinct (map fst xs)" using Cons.prems by simp
  show ?case
  proof (cases "k = ''__proto__''")
    case True
    have "fst ` set acc \<inter> fst ` set xs = {}"
      using Cons.prems by auto
    with d True x show ?thesis
      using Cons.IH [of acc] by (simp add: set_property_def)
  next
    case False
    have "k \<notin> fst ` set acc" using Cons.prems x by auto
    then have u: "AList.update k (f t) acc = acc @ [(k, f t)]"
      by (rule update_fresh_key)
    have "fst ` set (acc @ [(k, f t)]) \<inter> fst ` set xs = {}"
      using Cons.prems x by auto
    with d False x u show ?thesis
      using Cons.IH [of "acc @ [(k, f t)]"] by (simp add: set_property_def)
  qed
qed

lemma isInt_iff:
  "isInt checks \<longleftrightarrow> (\<exists>cs. checks = Some cs \<and> (\<exists>ch \<in> set cs. kind ch = ''int''))"
  by (cases checks) (auto simp: list_ex_iff)

text \<open>
  C1. Modifier invariance: for every chain of Optional, Nullable and Default layers,
  of any order and depth, the translation of the wrapped node is that of the fully
  unwrapped base node. The code removes at most three layers, so the invariance
  breaks on the chain built by \<open>z.number().optional().nullable().default(0)\<close>: its base
  node is a Number, the code is left with the Optional layer and falls into the
  last \<open>else\<close>, which answers \<open>STRING\<close>, while the base node alone gives \<open>NUMBER\<close>.
\<close>

theorem C1_three_layers_fall_back_to_string:
  "fully_unwrapped
     (ZodDefault None (ZodNullable None (ZodOptional None (ZodNumber None None))) ''0'')
     = ZodNumber None None
   \<and> zodTypeToGoogleSchema
       (ZodDefault None (ZodNullable None (ZodOptional None (ZodNumber None None))) ''0'')
     = Schema STRING None None None None None None
   \<and> zodTypeToGoogleSchema (ZodNumber None None)
     = Schema NUMBER None None None None None None"
  by (simp add: zodTypeToGoogleSchema.simps unwrapped_def)

text \<open>
  C4. The translator answers on every node, and a node whose base kind, once every
  modifier is removed, is none of String, Number, Boolean, Enum, Array and Object is
  translated to a schema of type \<open>STRING\<close> with no other field than the description of
  the node the code stopped at. (The function has no failing branch; its recursion
  ends on every node, by the termination proof above.)
\<close>

theorem C4_unrecognized_kind_is_string:
  assumes "fully_unwrapped z = ZodOther d"
  shows "zodTypeToGoogleSchema z =
           Schema STRING (zod_description (unwrapped z)) None None None None None"
proof -
  have "fully_unwrapped (unwrapped z) = ZodOther d"
    using assms by (simp add: fully_unwrapped_unwrapped)
  then show ?thesis
    by (cases "unwrapped z") (auto simp: zodTypeToGoogleSchema.simps [of z])
qed

theorem C4_unrecognized_kind_is_string_witness:
  "fully_unwrapped (ZodNullable None (ZodDefault None (ZodOther (Some ''u'')) ''1''))
     = ZodOther (Some ''u'')
   \<and> zodTypeToGoogleSchema (ZodNullable None (ZodDefault None (ZodOther (Some ''u'')) ''1''))
     = Schema STRING (Some ''u'') None None None None None"
  using C4_unrecognized_kind_is_string
    [of "ZodNullable None (ZodDefault None (ZodOther (Some ''u'')) ''1'')" "Some ''u''"]
  by (simp add: unwrapped_def)

text \<open>
  C5. An Enum node with values \<open>vs\<close> is translated to type \<open>STRING\<close>, format
  \<open>enum\<close>, and the enum list \<open>vs\<close> itself, element for element in the same order;
  \<open>Enum(["a","b"])\<close> gives \<open>{type: STRING, format: "enum", enum: ["a","b"]}\<close>.
\<close>

theorem C5_enum_copied_in_order:
  "zodTypeToGoogleSchema (ZodEnum d vs) = Schema STRING d (Some vs) (Some ''enum'') None None None
   \<and> zodTypeToGoogleSchema (ZodEnum None [''a'', ''b''])
       = Schema STRING None (Some [''a'', ''b'']) (Some ''enum'') None None None"
  by (simp add: zodTypeToGoogleSchema.simps [of "ZodEnum d vs"]
      zodTypeToGoogleSchema.simps [of "ZodEnum None [''a'', ''b'']"] unwrapped_def)

text \<open>
  What the object branch does on every shape (the field names of a JavaScript
  object are distinct): the fields other than \<open>__proto__\<close> are translated, in order.
\<close>

lemma object_properties:
  assumes "distinct (map fst shape)"
  shows "zodTypeToGoogleSchema (ZodObject d shape) =
           Schema OBJECT d None None None
             (Some (map (\<lambda>(key, t). (key, zodTypeToGoogleSchema t))
                      (filter (\<lambda>(key, t). key \<noteq> ''__proto__'') shape))) None"
proof -
  have "fold (\<lambda>(key, t) props. set_property key (zodTypeToGoogleSchema t) props) shape []
          = [] @ map (\<lambda>(key, t). (key, zodTypeToGoogleSchema t))
                   (filter (\<lambda>(key, t). key \<noteq> ''__proto__'') shape)"
    using assms by (intro fold_set_property_distinct) simp_all
  then show ?thesis
    by (simp add: translate_base)
qed

lemma object_properties_present:
  "type (zodTypeToGoogleSchema (ZodObject d shape)) = OBJECT"
  "properties (zodTypeToGoogleSchema (ZodObject d shape)) \<noteq> None"
  "zodTypeToGoogleSchema (ZodObject d []) = Schema OBJECT d None None None (Some []) None"
  by (simp_all add: translate_base)

lemma number_is_integer_iff:
  "type (zodTypeToGoogleSchema (ZodNumber d checks)) = INTEGER
     \<longleftrightarrow> (\<exists>cs. checks = Some cs \<and> (\<exists>ch \<in> set cs. kind ch = ''int''))"
  "type (zodTypeToGoogleSchema (ZodNumber d checks)) = NUMBER
     \<longleftrightarrow> \<not> (\<exists>cs. checks = Some cs \<and> (\<exists>ch \<in> set cs. kind ch = ''int''))"
  unfolding isInt_iff [symmetric] by (simp_all add: translate_base)

lemma object_example:
  "zodTypeToGoogleSchema
     (ZodObject None [(''x'', ZodNumber None (Some [ZodNumberCheck ''int''])), (''y'', ZodString None)])
   = Schema OBJECT None None None None
       (Some [(''x'', Schema INTEGER None None None None None None),
              (''y'', Schema STRING None None None None None None)]) None"
  by (simp add: translate_base set_property_def)

text \<open>
  C6. Every Object node is to be translated to type \<open>OBJECT\<close> with properties that
  send each field name to the translation of its field type, a Number being
  \<open>INTEGER\<close> exactly when it has a check of kind \<open>int\<close>, and the properties being
  present also for the empty Object. The lemmas above show this for every field
  whose name is not \<open>__proto__\<close>. A field of that name is lost: the loop assigns
  \<open>objectSchema.properties[key]\<close> on a plain object, and for that key the assignment
  sets the prototype and adds no property. Of the two fields \<open>id\<close> and \<open>__proto__\<close>
  only \<open>id\<close> is in the result, where the claim has both.
\<close>

theorem C6_field_named_proto_is_lost:
  "zodTypeToGoogleSchema
     (ZodObject None [(''id'', ZodString None), (''__proto__'', ZodNumber None None)])
     = Schema OBJECT None None None None
         (Some [(''id'', Schema STRING None None None None None None)]) None
   \<and> map (\<lambda>(key, t). (key, zodTypeToGoogleSchema t))
         [(''id'', ZodString None), (''__proto__'', ZodNumber None None)]
     = [(''id'', Schema STRING None None None None None None),
        (''__proto__'', Schema NUMBER None None None None None None)]"
  by (simp add: translate_base set_property_def)

subsection \<open>Facts about \<open>processQuery\<close>\<close>

lemma processCalls_append:
  "tool_rounds ext this before segments this' \<Longrightarrow>
   processCalls ext (before @ rest) finalText this
     = processCalls ext rest (finalText @ segments) this'"
proof (induction arbitrary: finalText rule: tool_rounds.induct)
  case (no_calls this)
  then show ?case by simp
next
  case (round this fc result m1 item others s followup s1 fcs segments this')
  then show ?case
    by (simp add: mcp_callTool_def session_sendMessage_def log_def calling_line_def
        result_message_def)
qed

lemma processCalls_rounds:
  "tool_rounds ext this fcs segments this' \<Longrightarrow>
   processCalls ext fcs finalText this = (Inr (finalText @ segments), this')"
  using processCalls_append [of ext this fcs segments this' "[]" finalText] by simp

lemma tool_rounds_length:
  "tool_rounds ext this fcs segments this' \<Longrightarrow> length segments = 2 * length fcs"
  by (induction rule: tool_rounds.induct) simp_all

lemma tool_rounds_lines:
  "tool_rounds ext this fcs segments this' \<Longrightarrow> i < length fcs \<Longrightarrow>
   segments ! (2 * i)
     = ''[Calling tool '' @ fc_name (fcs ! i) @ '' with args ''
         @ stringify ext (fc_args (fcs ! i)) @ '']''"
proof (induction arbitrary: i rule: tool_rounds.induct)
  case (no_calls this)
  then show ?case by simp
next
  case (round this fc result m1 item others s followup s1 fcs segments this')
  then show ?case by (cases i) simp_all
qed

lemma join_line_breaks:
  "join newline (x # xs) = x @ concat (map (\<lambda>segment. [CHR 0x0A] @ segment) xs)"
  by (induction xs arbitrary: x) (simp_all add: newline_def)

text \<open>
  C2. When the first message is answered and every round of the \<open>k\<close> calls of the
  response succeeds, \<open>processQuery\<close> returns the response's text followed, for each
  call in the order of the response, by the line naming the tool and its arguments
  and then the text the same session answers once the tool result is sent to it,
  each of the \<open>2k\<close> later segments after a line feed; with one call the answer is the
  three segments in that order.
\<close>

theorem C2_processQuery_segments:
  assumes "session this = Some s"
    and "sendMessage ext s query = (Inr result, s1)"
    and "calls = (case functionCalls result of None \<Rightarrow> [] | Some cs \<Rightarrow> cs)"
    and "tool_rounds ext (this\<lparr>session := Some s1\<rparr>) calls segments this'"
  shows "processQuery ext this query
           = (Inr (response_text result
                   @ concat (map (\<lambda>segment. [CHR 0x0A] @ segment) segments)), this')
         \<and> length segments = 2 * length calls
         \<and> (\<forall>i < length calls.
               segments ! (2 * i)
                 = ''[Calling tool '' @ fc_name (calls ! i) @ '' with args ''
                     @ stringify ext (fc_args (calls ! i)) @ '']'')
         \<and> (\<forall>fc. calls = [fc] \<longrightarrow>
               (\<exists>toolResult m1 item others followup s2.
                  callTool ext (mcp this) (fc_name fc) (fc_args fc) = (Inr toolResult, m1)
                  \<and> content toolResult = item # others
                  \<and> sendMessage ext s1
                       (''Using the following information, answer the original query: ''
                          @ (case item_text item of None \<Rightarrow> ''undefined'' | Some t \<Rightarrow> t))
                      = (Inr followup, s2)
                  \<and> fst (processQuery ext this query)
                      = Inr (response_text result @ [CHR 0x0A]
                             @ ''[Calling tool '' @ fc_name fc @ '' with args ''
                             @ stringify ext (fc_args fc) @ '']'' @ [CHR 0x0A]
                             @ response_text followup)))"
proof -
  have a: "processQuery ext this query
           = (Inr (response_text result
                   @ concat (map (\<lambda>segment. [CHR 0x0A] @ segment) segments)), this')"
    using assms(1,2,3) processCalls_rounds [OF assms(4), of "[response_text result]"]
    by (simp add: processQuery_def session_sendMessage_def requested_def join_line_breaks)
  have b: "length segments = 2 * length calls"
    using assms(4) by (rule tool_rounds_length)
  have c: "\<forall>i < length calls.
               segments ! (2 * i)
                 = ''[Calling tool '' @ fc_name (calls ! i) @ '' with args ''
                     @ stringify ext (fc_args (calls ! i)) @ '']''"
    using tool_rounds_lines [OF assms(4)] by blast
  have d: "\<exists>toolResult m1 item others followup s2.
                  callTool ext (mcp this) (fc_name fc) (fc_args fc) = (Inr toolResult, m1)
                  \<and> content toolResult = item # others
                  \<and> sendMessage ext s1
                       (''Using the following information, answer the original query: ''
                          @ (case item_text item of None \<Rightarrow> ''undefined'' | Some t \<Rightarrow> t))
                      = (Inr followup, s2)
                  \<and> fst (processQuery ext this query)
                      = Inr (response_text result @ [CHR 0x0A]
                             @ ''[Calling tool '' @ fc_name fc @ '' with args ''
                             @ stringify ext (fc_args fc) @ '']'' @ [CHR 0x0A]
                             @ response_text followup)"
    if e: "calls = [fc]" for fc
  proof -
    from assms(4) e have "tool_rounds ext (this\<lparr>session := Some s1\<rparr>) [fc] segments this'"
      by simp
    then show ?thesis
    proof (cases rule: tool_rounds.cases)
      case (round toolResult m1 item others s' followup s2 segments')
      from round have "tool_rounds ext
          (this\<lparr>session := Some s1, mcp := m1,
                 console := console (this\<lparr>session := Some s1\<rparr>) @ [LogToolResult toolResult],
                 session := Some s2\<rparr>) [] segments' this'"
        by simp
      then have "segments' = []"
        by (rule tool_rounds_nilE)
      with round a show ?thesis by auto
    qed
  qed
  show ?thesis using a b c d by blast
qed

text \<open>
  A run with two calls, on a session whose answers repeat the message they answer
  and count the messages received, and a provider whose result names the call.
\<close>

theorem C2_processQuery_segments_witness:
  "session (demo_client 0) = Some 0
   \<and> sendMessage echo 0 ''describe dataset X''
       = (Inr \<lparr>response_text = ''Let me look.'',
               functionCalls = Some [\<lparr>fc_name = ''get_dataset_metadata'', fc_args = ''{name:X}''\<rparr>,
                                     \<lparr>fc_name = ''list_files'', fc_args = ''{dir:/}''\<rparr>]\<rparr>, 1)
   \<and> tool_rounds echo ((demo_client 0)\<lparr>session := Some 1\<rparr>)
        [\<lparr>fc_name = ''get_dataset_metadata'', fc_args = ''{name:X}''\<rparr>,
         \<lparr>fc_name = ''list_files'', fc_args = ''{dir:/}''\<rparr>]
        [''[Calling tool get_dataset_metadata with args {name:X}]'',
         ''#Using the following information, answer the original query: get_dataset_metadata{name:X}'',
         ''[Calling tool list_files with args {dir:/}]'',
         ''##Using the following information, answer the original query: list_files{dir:/}'']
        ((demo_client 0)\<lparr>mcp := 2,
           console := [LogToolResult \<lparr>content = [ContentItem (Some ''get_dataset_metadata{name:X}'')]\<rparr>,
                       LogToolResult \<lparr>content = [ContentItem (Some ''list_files{dir:/}'')]\<rparr>],
           session := Some 3\<rparr>)
   \<and> fst (processQuery echo (demo_client 0) ''describe dataset X'')
       = Inr (''Let me look.'' @ [CHR 0x0A]
              @ ''[Calling tool get_dataset_metadata with args {name:X}]'' @ [CHR 0x0A]
              @ ''#Using the following information, answer the original query: get_dataset_metadata{name:X}''
              @ [CHR 0x0A]
              @ ''[Calling tool list_files with args {dir:/}]'' @ [CHR 0x0A]
              @ ''##Using the following information, answer the original query: list_files{dir:/}'')"
proof -
  let ?c1 = "\<lparr>fc_name = ''get_dataset_metadata'', fc_args = ''{name:X}''\<rparr> :: string FunctionCall"
  let ?c2 = "\<lparr>fc_name = ''list_files'', fc_args = ''{dir:/}''\<rparr> :: string FunctionCall"
  let ?r = "\<lparr>response_text = ''Let me look.'', functionCalls = Some [?c1, ?c2]\<rparr>"
  let ?r1 = "\<lparr>content = [ContentItem (Some ''get_dataset_metadata{name:X}'')]\<rparr>"
  let ?r2 = "\<lparr>content = [ContentItem (Some ''list_files{dir:/}'')]\<rparr>"
  let ?f1 = "\<lparr>response_text = ''#Using the following information, answer the original query: get_dataset_metadata{name:X}'',
               functionCalls = None\<rparr> :: string GenerateContentResponse"
  let ?f2 = "\<lparr>response_text = ''##Using the following information, answer the original query: list_files{dir:/}'',
               functionCalls = None\<rparr> :: string GenerateContentResponse"
  let ?w0 = "(demo_client 0)\<lparr>session := Some 1\<rparr>"
  let ?w1 = "(demo_client 0)\<lparr>mcp := 1, console := [LogToolResult ?r1], session := Some 2\<rparr>"
  let ?w2 = "(demo_client 0)\<lparr>mcp := 2, console := [LogToolResult ?r1, LogToolResult ?r2],
                session := Some 3\<rparr>"
  have h1: "session (demo_client 0) = Some 0"
    by (simp add: demo_client_def)
  have h2: "sendMessage echo 0 ''describe dataset X'' = (Inr ?r, 1)"
    by (simp add: echo_def echo_sendMessage_def echo_calls_def)
  have h3: "[?c1, ?c2] = (case functionCalls ?r of None \<Rightarrow> [] | Some cs \<Rightarrow> cs)"
    by simp
  have t2: "tool_rounds echo ?w2 [] [] ?w2"
    by (rule tool_rounds.no_calls)
  have t1: "tool_rounds echo ?w1 [?c2]
        [''[Calling tool list_files with args {dir:/}]'', response_text ?f2] ?w2"
    using tool_rounds.round [of echo ?w1 ?c2 ?r2 2 "ContentItem (Some ''list_files{dir:/}'')"
        "[]" 2 ?f2 3 "[]" "[]" ?w2] t2
    by (simp add: echo_def echo_sendMessage_def demo_client_def numeral_2_eq_2)
  have t0: "tool_rounds echo ?w0 [?c1, ?c2]
        [''[Calling tool get_dataset_metadata with args {name:X}]'', response_text ?f1,
         ''[Calling tool list_files with args {dir:/}]'', response_text ?f2] ?w2"
    using tool_rounds.round [of echo ?w0 ?c1 ?r1 1
        "ContentItem (Some ''get_dataset_metadata{name:X}'')" "[]" 1 ?f1 2 "[?c2]"
        "[''[Calling tool list_files with args {dir:/}]'', response_text ?f2]" ?w2] t1
    by (simp add: echo_def echo_sendMessage_def demo_client_def)
  show ?thesis
    using h1 h2 t0 C2_processQuery_segments [OF h1 h2 h3 t0] by simp
qed

text \<open>
  C10. When the response requests no tool call, whether its list of calls is empty or
  is not there at all, \<open>processQuery\<close> returns exactly the response's text; only the
  session has moved, and the result is the same whatever \<open>callTool\<close> is, so the
  provider is not invoked.
\<close>

theorem C10_no_calls_returns_text:
  assumes "session this = Some s"
    and "sendMessage ext s query = (Inr result, s1)"
    and "functionCalls result = None \<or> functionCalls result = Some []"
  shows "processQuery ext this query = (Inr (response_text result), this\<lparr>session := Some s1\<rparr>)
         \<and> (\<forall>f. processQuery (ext\<lparr>callTool := f\<rparr>) this query = processQuery ext this query)"
proof -
  have r: "requested result = []"
    using assms(3) by (auto simp: requested_def)
  have a: "processQuery ext this query
             = (Inr (response_text result), this\<lparr>session := Some s1\<rparr>)"
    using assms(1,2) r by (simp add: processQuery_def session_sendMessage_def)
  have "processQuery (ext\<lparr>callTool := f\<rparr>) this query
             = (Inr (response_text result), this\<lparr>session := Some s1\<rparr>)" for f
    using assms(1,2) r by (simp add: processQuery_def session_sendMessage_def)
  with a show ?thesis by simp
qed

theorem C10_no_calls_returns_text_witness:
  "session (demo_client 1) = Some 1
   \<and> sendMessage (stub (Inr ()) (Inr [demo_tool]) (Inr demo_result)) 1 ''thanks''
       = (Inr \<lparr>response_text = ''X has 3 files.'', functionCalls = None\<rparr>, 2)
   \<and> processQuery (stub (Inr ()) (Inr [demo_tool]) (Inr demo_result)) (demo_client 1) ''thanks''
       = (Inr ''X has 3 files.'', (demo_client 1)\<lparr>session := Some 2\<rparr>)
   \<and> mcp (snd (processQuery (stub (Inr ()) (Inr [demo_tool]) (Inr demo_result))
                 (demo_client 1) ''thanks'')) = 0"
proof -
  let ?ext = "stub (Inr ()) (Inr [demo_tool]) (Inr demo_result)"
  let ?r = "\<lparr>response_text = ''X has 3 files.'', functionCalls = None\<rparr> :: string GenerateContentResponse"
  have h1: "session (demo_client 1) = Some 1"
    by (simp add: demo_client_def)
  have h2: "sendMessage ?ext 1 ''thanks'' = (Inr ?r, 2)"
    by (simp add: stub_def stub_sendMessage_def)
  have h3: "functionCalls ?r = None \<or> functionCalls ?r = Some []"
    by simp
  have m: "mcp ((demo_client 1)\<lparr>session := Some 2\<rparr>) = 0"
    by (simp add: demo_client_def)
  show ?thesis
    using h1 h2 m C10_no_calls_returns_text [OF h1 h2 h3] by simp
qed

subsection \<open>Facts about \<open>processTools\<close>\<close>

lemma googleProperties_distinct:
  assumes "\<forall>props. inputSchema_properties tool = Some props \<longrightarrow> distinct (map fst props)"
  shows "googleProperties tool =
           (case inputSchema_properties tool of
              None \<Rightarrow> []
            | Some props \<Rightarrow>
                map (\<lambda>(key, t). (key, zodTypeToGoogleSchema t))
                  (filter (\<lambda>(key, t). key \<noteq> ''__proto__'') props))"
proof (cases "inputSchema_properties tool")
  case None
  then show ?thesis by (simp add: googleProperties_def)
next
  case (Some props)
  then have "distinct (map fst props)" using assms by simp
  then have "fold (\<lambda>(key, t) props. set_property key (zodTypeToGoogleSchema t) props) props []
          = [] @ map (\<lambda>(key, t). (key, zodTypeToGoogleSchema t))
                   (filter (\<lambda>(key, t). key \<noteq> ''__proto__'') props)"
    by (intro fold_set_property_distinct) simp_all
  with Some show ?thesis by (simp add: googleProperties_def)
qed

text \<open>
  What \<open>processTools\<close> returns on every listing (the keys of a JavaScript object are
  distinct): one entry per tool, in order, each with exactly one declaration, whose
  parameters are a schema of type \<open>OBJECT\<close> with the tool's description, the
  translations of the parameters other than \<open>__proto__\<close>, and no \<open>required\<close>.
\<close>

lemma processTools_declarations:
  assumes "listTools ext m = (Inr toolsResult, m')"
    and "\<forall>tool \<in> set toolsResult. \<forall>props.
           inputSchema_properties tool = Some props \<longrightarrow> distinct (map fst props)"
  shows "\<exists>googleTools. processTools ext m = (Inr googleTools, m')
           \<and> length googleTools = length toolsResult
           \<and> (\<forall>i < length toolsResult.
                \<exists>decl. functionDeclarations (googleTools ! i) = [decl]
                  \<and> decl_name decl = tool_name (toolsResult ! i)
                  \<and> decl_description decl = tool_description (toolsResult ! i)
                  \<and> parameters decl =
                      Schema OBJECT (tool_description (toolsResult ! i)) None None None
                        (Some (case inputSchema_properties (toolsResult ! i) of
                                 None \<Rightarrow> []
                               | Some props \<Rightarrow>
                                   map (\<lambda>(key, t). (key, zodTypeToGoogleSchema t))
                                     (filter (\<lambda>(key, t). key \<noteq> ''__proto__'') props)))
                        None
                  \<and> required (parameters decl) = None)"
proof -
  have p: "processTools ext m = (Inr (map googleTool toolsResult), m')"
    using assms(1) by (simp add: processTools_def)
  have "\<exists>decl. functionDeclarations (map googleTool toolsResult ! i) = [decl]
                  \<and> decl_name decl = tool_name (toolsResult ! i)
                  \<and> decl_description decl = tool_description (toolsResult ! i)
                  \<and> parameters decl =
                      Schema OBJECT (tool_description (toolsResult ! i)) None None None
                        (Some (case inputSchema_properties (toolsResult ! i) of
                                 None \<Rightarrow> []
                               | Some props \<Rightarrow>
                                   map (\<lambda>(key, t). (key, zodTypeToGoogleSchema t))
                                     (filter (\<lambda>(key, t). key \<noteq> ''__proto__'') props)))
                        None
                  \<and> required (parameters decl) = None"
    if i: "i < length toolsResult" for i
  proof -
    have "toolsResult ! i \<in> set toolsResult" using i by simp
    then have "\<forall>props. inputSchema_properties (toolsResult ! i) = Some props
                 \<longrightarrow> distinct (map fst props)"
      using assms(2) by blast
    then have "googleProperties (toolsResult ! i) =
        (case inputSchema_properties (toolsResult ! i) of
           None \<Rightarrow> []
         | Some props \<Rightarrow>
             map (\<lambda>(key, t). (key, zodTypeToGoogleSchema t))
               (filter (\<lambda>(key, t). key \<noteq> ''__proto__'') props))"
      by (rule googleProperties_distinct)
    then show ?thesis
      using i by (simp add: googleTool_def)
  qed
  with p show ?thesis by simp
qed

lemma processTools_example:
  "processTools (stub (Inr ()) (Inr [demo_tool]) (Inr demo_result)) 0
     = (Inr [\<lparr>functionDeclarations =
                [\<lparr>decl_name = ''get_dataset_metadata'',
                  decl_description = Some ''Fetch the metadata of a dataset'',
                  parameters =
                    Schema OBJECT (Some ''Fetch the metadata of a dataset'') None None None
                      (Some [(''name'', Schema STRING None None None None None None)])
                      None\<rparr>]\<rparr>], 1)"
  by (simp add: processTools_def stub_def googleTool_def googleProperties_def demo_tool_def
      translate_base set_property_def)

text \<open>
  C7. For every tool of the listing the catalog is to hold exactly one declaration,
  whose parameters are a schema of type \<open>OBJECT\<close> with the tool's description and,
  as properties, the translation of every entry of the tool's parameter map, with no
  \<open>required\<close> list. The lemmas above show this for every parameter whose name is
  not \<open>__proto__\<close>. A parameter of that name is lost, by the same assignment on a
  plain object as in the object branch of the translator: \<open>googleProperties[key]\<close>
  sets the prototype and adds no property. For a tool with the parameters \<open>id\<close> and
  \<open>__proto__\<close> the declaration has \<open>id\<close> alone, where the claim has both.
\<close>

theorem C7_parameter_named_proto_is_lost:
  "listTools (stub (Inr ()) (Inr [proto_tool]) (Inr demo_result)) 0 = (Inr [proto_tool], 1)
   \<and> inputSchema_properties proto_tool
       = Some [(''id'', ZodString None), (''__proto__'', ZodString None)]
   \<and> processTools (stub (Inr ()) (Inr [proto_tool]) (Inr demo_result)) 0
       = (Inr [\<lparr>functionDeclarations =
                  [\<lparr>decl_name = ''lookup'',
                    decl_description = Some ''Look a record up'',
                    parameters =
                      Schema OBJECT (Some ''Look a record up'') None None None
                        (Some [(''id'', Schema STRING None None None None None None)])
                        None\<rparr>]\<rparr>], 1)
   \<and> declared_properties proto_tool
       = [(''id'', Schema STRING None None None None None None),
          (''__proto__'', Schema STRING None None None None None None)]"
  by (simp add: processTools_def stub_def googleTool_def googleProperties_def proto_tool_def
      declared_properties_def translate_base set_property_def)

subsection \<open>Facts about \<open>quit\<close>\<close>

lemma char_eq_nat: "c = d \<longleftrightarrow> (of_char c :: nat) = of_char d"
  by simp

lemma of_char_less_256: "(of_char c :: nat) < 256"
proof -
  have "(of_char c :: nat) mod 256 = of_char c" by simp
  then show ?thesis by (metis mod_less_divisor zero_less_numeral)
qed

lemma ws_iff: "is_whitespace c \<longleftrightarrow> c \<in> white_space"
  by (simp add: is_whitespace_def white_space_def char_eq_nat [of c]) 

lemma of_char_lower_unit:
  "(of_char (lower_unit c) :: nat) =
     (if (65 \<le> (of_char c :: nat) \<and> (of_char c :: nat) \<le> 90)
         \<or> (192 \<le> (of_char c :: nat) \<and> (of_char c :: nat) \<le> 222
             \<and> (of_char c :: nat) \<noteq> 215)
      then of_char c + 32 else of_char c)"
  using of_char_less_256 [of c] by (auto simp: lower_unit_def)

lemma lower_ws: "is_whitespace (lower_unit c) \<longleftrightarrow> is_whitespace c"
  unfolding is_whitespace_def of_char_lower_unit by auto

lemma lower_q: "lower_unit c = CHR ''q'' \<longleftrightarrow> c \<in> {CHR ''q'', CHR ''Q''}"
  unfolding char_eq_nat [of "lower_unit c"] of_char_lower_unit
  by (auto simp: char_eq_nat [of c])


lemma lower_u: "lower_unit c = CHR ''u'' \<longleftrightarrow> c \<in> {CHR ''u'', CHR ''U''}"
  unfolding char_eq_nat [of "lower_unit c"] of_char_lower_unit
  by (auto simp: char_eq_nat [of c])

lemma lower_i: "lower_unit c = CHR ''i'' \<longleftrightarrow> c \<in> {CHR ''i'', CHR ''I''}"
  unfolding char_eq_nat [of "lower_unit c"] of_char_lower_unit
  by (auto simp: char_eq_nat [of c])

lemma lower_t: "lower_unit c = CHR ''t'' \<longleftrightarrow> c \<in> {CHR ''t'', CHR ''T''}"
  unfolding char_eq_nat [of "lower_unit c"] of_char_lower_unit
  by (auto simp: char_eq_nat [of c])

lemma trim_sandwich:
  assumes "\<forall>x \<in> set front. is_whitespace x" and "\<forall>x \<in> set rear. is_whitespace x"
    and "core \<noteq> []" and "\<not> is_whitespace (hd core)" and "\<not> is_whitespace (last core)"
  shows "trim (front @ core @ rear) = core"
proof -
  obtain a as where c: "core = a # as" using assms(3) by (cases core) auto
  have "dropWhile is_whitespace (front @ (core @ rear)) = dropWhile is_whitespace (core @ rear)"
    using assms(1) by (intro dropWhile_append2) simp
  then have 1: "dropWhile is_whitespace (front @ core @ rear) = core @ rear"
    using assms(4) c by simp
  have "rev core \<noteq> []" using assms(3) by simp
  then obtain b bs where r: "rev core = b # bs" by (cases "rev core") auto
  have "b = last core" using r assms(3) by (metis hd_rev list.sel(1))
  then have nb: "\<not> is_whitespace b" using assms(5) by simp
  have "dropWhile is_whitespace (rev rear @ (b # bs)) = dropWhile is_whitespace (b # bs)"
    using assms(2) by (intro dropWhile_append2) simp
  then have "dropWhile is_whitespace (rev (core @ rear)) = rev core"
    using nb r by simp
  with 1 show ?thesis by (simp add: trim_def)
qed

lemma trim_decompose:
  "\<exists>front rear. s = front @ trim s @ rear
     \<and> (\<forall>x \<in> set front. is_whitespace x) \<and> (\<forall>x \<in> set rear. is_whitespace x)"
proof -
  let ?d = "dropWhile is_whitespace s"
  have 1: "s = takeWhile is_whitespace s @ ?d" by simp
  have "rev (takeWhile is_whitespace (rev ?d) @ dropWhile is_whitespace (rev ?d)) = rev (rev ?d)"
    by (simp only: takeWhile_dropWhile_id)
  then have "rev (dropWhile is_whitespace (rev ?d)) @ rev (takeWhile is_whitespace (rev ?d)) = ?d"
    by (simp only: rev_append rev_rev_ident)
  then have 2: "?d = trim s @ rev (takeWhile is_whitespace (rev ?d))"
    by (simp only: trim_def)
  have "s = takeWhile is_whitespace s @ trim s @ rev (takeWhile is_whitespace (rev ?d))"
    using 1 2 by metis
  moreover have "\<forall>x \<in> set (takeWhile is_whitespace s). is_whitespace x"
    by (meson set_takeWhileD)
  moreover have "\<forall>x \<in> set (rev (takeWhile is_whitespace (rev ?d))). is_whitespace x"
    by (metis set_rev set_takeWhileD)
  ultimately show ?thesis by blast
qed

lemma map_eq_four:
  "map f xs = [a, b, c, d] @ ys \<Longrightarrow>
   \<exists>q u i t r. xs = [q, u, i, t] @ r \<and> f q = a \<and> f u = b \<and> f i = c \<and> f t = d \<and> map f r = ys"
  by (auto simp: map_eq_Cons_conv)

lemma lowered_quit:
  assumes "map lower_unit line = front' @ ''quit'' @ rear'"
    and "\<forall>x \<in> set front'. is_whitespace x" and "\<forall>x \<in> set rear'. is_whitespace x"
  shows "quit_line line"
proof -
  from assms(1) have "\<exists>us vs. line = us @ vs \<and> front' = map lower_unit us
      \<and> ''quit'' @ rear' = map lower_unit vs"
    by (simp only: map_eq_append_conv)
  then obtain front rest where
    f: "line = front @ rest" "front' = map lower_unit front"
       "map lower_unit rest = ''quit'' @ rear'"
    by metis
  from map_eq_four [OF f(3)] obtain q u i t rear where
    r: "rest = [q, u, i, t] @ rear" "lower_unit q = CHR ''q''" "lower_unit u = CHR ''u''"
       "lower_unit i = CHR ''i''" "lower_unit t = CHR ''t''" "map lower_unit rear = rear'"
    by blast
  have "\<forall>x \<in> set front. is_whitespace (lower_unit x)"
    using assms(2) f(2) by simp
  then have 1: "set front \<subseteq> white_space"
    using lower_ws ws_iff by blast
  have "\<forall>x \<in> set rear. is_whitespace (lower_unit x)"
    using assms(3) r(6) by auto
  then have 2: "set rear \<subseteq> white_space"
    using lower_ws ws_iff by blast
  have 3: "line = front @ [q, u, i, t] @ rear"
    using f(1) r(1) by simp
  have 4: "q \<in> {CHR ''q'', CHR ''Q''}" using r(2) by (simp only: lower_q)
  have 5: "u \<in> {CHR ''u'', CHR ''U''}" using r(3) by (simp only: lower_u)
  have 6: "i \<in> {CHR ''i'', CHR ''I''}" using r(4) by (simp only: lower_i)
  have 7: "t \<in> {CHR ''t'', CHR ''T''}" using r(5) by (simp only: lower_t)
  show ?thesis
    unfolding quit_line_def using 1 2 3 4 5 6 7 by blast
qed

lemma quit_line_lowered:
  assumes "quit_line line"
  shows "is_quit line"
proof -
  from assms obtain front q u i t rear where
    l: "line = front @ [q, u, i, t] @ rear"
      "set front \<subseteq> white_space" "set rear \<subseteq> white_space"
      "q \<in> {CHR ''q'', CHR ''Q''}" "u \<in> {CHR ''u'', CHR ''U''}"
      "i \<in> {CHR ''i'', CHR ''I''}" "t \<in> {CHR ''t'', CHR ''T''}"
    unfolding quit_line_def by blast
  have q: "lower_unit q = CHR ''q''" using l(4) by (simp only: lower_q)
  have u: "lower_unit u = CHR ''u''" using l(5) by (simp only: lower_u)
  have i: "lower_unit i = CHR ''i''" using l(6) by (simp only: lower_i)
  have t: "lower_unit t = CHR ''t''" using l(7) by (simp only: lower_t)
  have m: "map lower_unit line
             = map lower_unit front @ [CHR ''q'', CHR ''u'', CHR ''i'', CHR ''t'']
                 @ map lower_unit rear"
    unfolding l(1) by (simp only: map_append list.map q u i t)
  have a: "\<forall>x \<in> set (map lower_unit front). is_whitespace x"
    using l(2) lower_ws ws_iff by auto
  have b: "\<forall>x \<in> set (map lower_unit rear). is_whitespace x"
    using l(3) lower_ws ws_iff by auto
  have c: "\<not> is_whitespace (hd [CHR ''q'', CHR ''u'', CHR ''i'', CHR ''t''])"
    by (simp add: is_whitespace_def)
  have d: "\<not> is_whitespace (last [CHR ''q'', CHR ''u'', CHR ''i'', CHR ''t''])"
    by (simp add: is_whitespace_def)
  have "trim (map lower_unit front @ [CHR ''q'', CHR ''u'', CHR ''i'', CHR ''t'']
               @ map lower_unit rear) = [CHR ''q'', CHR ''u'', CHR ''i'', CHR ''t'']"
    using a b _ c d by (rule trim_sandwich) simp
  with m show ?thesis
    by (simp only: is_quit_def toLowerCase_def)
qed

lemma is_quit_iff_quit_line: "is_quit line \<longleftrightarrow> quit_line line"
proof
  assume "is_quit line"
  then have t: "trim (map lower_unit line) = ''quit''"
    by (simp only: is_quit_def toLowerCase_def)
  from trim_decompose [of "map lower_unit line"] obtain front' rear' where
    "map lower_unit line = front' @ trim (map lower_unit line) @ rear'"
    "\<forall>x \<in> set front'. is_whitespace x" "\<forall>x \<in> set rear'. is_whitespace x"
    by blast
  then show "quit_line line"
    unfolding t by (rule lowered_quit)
next
  assume "quit_line line"
  then show "is_quit line" by (rule quit_line_lowered)
qed

lemma not_quit_demo: "\<not> is_quit ''describe dataset X''"
  by (simp add: is_quit_def trim_def toLowerCase_def lower_unit_def is_whitespace_def)

lemma quit_demo: "is_quit '' QUIT ''"
  by code_simp

lemma is_quit_examples:
  "is_quit ''quit''" "is_quit ''QuIt''" "is_quit ([CHR 0x09] @ ''Quit  '' @ [CHR 0x0D])"
  "is_quit (''quit'' @ [CHR 0xA0])"
  "\<not> is_quit ''quit now''" "\<not> is_quit ''q uit''" "\<not> is_quit []"
  by code_simp+

subsection \<open>Facts about failures and the interactive loop\<close>

lemma processQuery_first_message_fails:
  "session this = Some s \<Longrightarrow> sendMessage ext s query = (Inl e, s1) \<Longrightarrow>
   fst (processQuery ext this query) = Inl e"
  by (simp add: processQuery_def session_sendMessage_def)

lemma processQuery_after_rounds:
  assumes "session this = Some s"
    and "sendMessage ext s query = (Inr result, s1)"
    and "(case functionCalls result of None \<Rightarrow> [] | Some calls \<Rightarrow> calls) = before @ rest"
    and "tool_rounds ext (this\<lparr>session := Some s1\<rparr>) before segments this1"
  shows "fst (processQuery ext this query)
           = map_sum id (join newline)
               (fst (processCalls ext rest (response_text result # segments) this1))"
proof -
  have "processCalls ext (before @ rest) [response_text result] (this\<lparr>session := Some s1\<rparr>)
          = processCalls ext rest ([response_text result] @ segments) this1"
    using assms(4) by (rule processCalls_append)
  then show ?thesis
    using assms(1,2,3)
    by (simp add: processQuery_def session_sendMessage_def requested_def
        split: prod.splits sum.splits)
qed

lemma invocation_fails_processQuery:
  assumes "invocation_fails ext this query e"
  shows "fst (processQuery ext this query) = Inl e"
  using assms
proof (cases rule: invocation_fails.cases)
  case (first_message s s1)
  then show ?thesis by (rule processQuery_first_message_fails)
next
  case (tool_call s result s1 before fc after segments this1 m1)
  have "fst (processCalls ext (fc # after) (response_text result # segments) this1) = Inl e"
    using tool_call(5) by (simp add: mcp_callTool_def)
  then show ?thesis
    using processQuery_after_rounds [OF tool_call(1,2,3,4)] by simp
next
  case (follow_up s result s1 before fc after segments this1 toolResult m1 item others s2 s3)
  have "fst (processCalls ext (fc # after) (response_text result # segments) this1) = Inl e"
    using follow_up(5,6,7,8)
    by (simp add: mcp_callTool_def session_sendMessage_def log_def result_message_def)
  then show ?thesis
    using processQuery_after_rounds [OF follow_up(1,2,3,4)] by simp
qed

lemma chatLoop_started_opened: "chatLoop_started this = opened this"
  by (simp add: chatLoop_started_def opened_def log_def newline_def)

lemma chatLoop_while_answered:
  "answered ext this before this1 \<Longrightarrow>
   chatLoop_while ext (before @ rest) this = chatLoop_while ext rest this1"
proof (induction rule: answered.induct)
  case (none this)
  then show ?case by simp
next
  case (one message this response this1 rest' this')
  then show ?case
    by (simp add: is_quit_iff_quit_line log_def newline_def)
qed

lemma chatLoop_while_quit:
  "quit_line message \<Longrightarrow> chatLoop_while ext (message # rest) this = (Break, rest, this)"
  by (simp add: is_quit_iff_quit_line)

lemma chatLoop_while_failure:
  assumes "processQuery ext this message = (Inl e, this1)" and "\<not> quit_line message"
  shows "chatLoop_while ext (message # rest) this = (Threw e, rest, this1)"
  using assms by (simp add: is_quit_iff_quit_line)

text \<open>
  C3 as stated: after a query whose tool-provider invocation (or model-session call)
  fails, \<open>processQuery\<close> fails without output and the interactive loop still takes the
  next query. The first half holds. The second does not: the \<open>try\<close> encloses the
  whole \<open>while\<close> loop, so the error leaves the loop. With a provider whose
  \<open>callTool\<close> is rejected and two lines of input, \<open>chatLoop\<close> returns after the first
  line and the second line is never read.
\<close>

theorem C3_next_query_not_read_counterexample:
  "fst (processQuery (stub (Inr ()) (Inr [demo_tool]) (Inl (Error ''tool failed'')))
          (chatLoop_started (demo_client 0)) ''describe dataset X'')
     = Inl (Error ''tool failed'')
   \<and> fst (chatLoop (stub (Inr ()) (Inr [demo_tool]) (Inl (Error ''tool failed'')))
            [''describe dataset X'', ''list my notebooks''] (demo_client 0)) = Returned
   \<and> fst (snd (chatLoop (stub (Inr ()) (Inr [demo_tool]) (Inl (Error ''tool failed'')))
            [''describe dataset X'', ''list my notebooks''] (demo_client 0)))
     = [''list my notebooks'']"
proof -
  let ?ext = "stub (Inr ()) (Inr [demo_tool]) (Inl (Error ''tool failed''))"
  have p: "processQuery ?ext (chatLoop_started (demo_client 0)) ''describe dataset X''
         = (Inl (Error ''tool failed''),
            (chatLoop_started (demo_client 0))\<lparr>session := Some 1, mcp := 1\<rparr>)"
    by (simp add: processQuery_def session_sendMessage_def stub_def stub_sendMessage_def
        chatLoop_started_def demo_client_def log_def requested_def mcp_callTool_def)
  show ?thesis
    using p not_quit_demo by (simp add: chatLoop_def)
qed

text \<open>
  C3, amended. If a tool-provider invocation or a model-session call fails during
  \<open>processQuery\<close>, then \<open>processQuery\<close> fails with that error and returns none of the
  accumulated output, and the interactive loop does not take the next query: the
  error is logged and \<open>chatLoop\<close> returns, with the lines after the failed query
  unread. (The line reader is closed on the way out.)
\<close>

theorem C3_failure_ends_the_loop:
  assumes "invocation_fails ext this query e"
  shows "fst (processQuery ext this query) = Inl e
         \<and> (\<not> quit_line query \<longrightarrow> answered ext (opened this0) before this \<longrightarrow>
              chatLoop ext (before @ query # rest) this0
                = (Returned, rest, ReaderClosed,
                   (snd (processQuery ext this query))
                     \<lparr>console := console (snd (processQuery ext this query)) @ [ErrorLog e]\<rparr>))"
proof -
  have f: "fst (processQuery ext this query) = Inl e"
    using assms by (rule invocation_fails_processQuery)
  have "chatLoop ext (before @ query # rest) this0
          = (Returned, rest, ReaderClosed,
             (snd (processQuery ext this query))
               \<lparr>console := console (snd (processQuery ext this query)) @ [ErrorLog e]\<rparr>)"
    if q: "\<not> quit_line query" and a: "answered ext (opened this0) before this"
  proof -
    have p: "processQuery ext this query = (Inl e, snd (processQuery ext this query))"
      using f by (metis prod.collapse)
    have "chatLoop_while ext (before @ query # rest) (opened this0)
            = chatLoop_while ext (query # rest) this"
      using a by (rule chatLoop_while_answered)
    also have "\<dots> = (Threw e, rest, snd (processQuery ext this query))"
      using p q by (rule chatLoop_while_failure)
    finally show ?thesis
      by (simp add: chatLoop_def chatLoop_started_opened log_def)
  qed
  with f show ?thesis by blast
qed

text \<open>
  A run in which a first query is answered, the second asks for two tools, the first
  tool answers and the second is rejected; a third line follows.
\<close>

theorem C3_failure_ends_the_loop_witness:
  "answered flaky (opened (demo_client 0)) [''hello'']
     ((demo_client 0)\<lparr>session := Some 1,
        console := [Log ([CHR 0x0A] @ ''MCP Client Started!''),
                    Log (''Type your queries or '' @ [CHR 0x27] @ ''quit'' @ [CHR 0x27]
                         @ '' to exit.''),
                    Log ([CHR 0x0A] @ ''hello'')]\<rparr>)
   \<and> invocation_fails flaky
       ((demo_client 0)\<lparr>session := Some 1,
          console := [Log ([CHR 0x0A] @ ''MCP Client Started!''),
                      Log (''Type your queries or '' @ [CHR 0x27] @ ''quit'' @ [CHR 0x27]
                           @ '' to exit.''),
                      Log ([CHR 0x0A] @ ''hello'')]\<rparr>)
       ''describe dataset X'' (Error ''tool failed'')
   \<and> \<not> quit_line ''describe dataset X''
   \<and> fst (chatLoop flaky [''hello'', ''describe dataset X'', ''list my notebooks'']
            (demo_client 0)) = Returned
   \<and> fst (snd (chatLoop flaky [''hello'', ''describe dataset X'', ''list my notebooks'']
                 (demo_client 0))) = [''list my notebooks'']
   \<and> fst (snd (snd (chatLoop flaky [''hello'', ''describe dataset X'', ''list my notebooks'']
                      (demo_client 0)))) = ReaderClosed
   \<and> last (console (snd (snd (snd (chatLoop flaky
              [''hello'', ''describe dataset X'', ''list my notebooks''] (demo_client 0))))))
       = ErrorLog (Error ''tool failed'')"
proof -
  let ?banner = "[Log ([CHR 0x0A] @ ''MCP Client Started!''),
                  Log (''Type your queries or '' @ [CHR 0x27] @ ''quit'' @ [CHR 0x27]
                       @ '' to exit.'')]"
  let ?w1 = "(demo_client 0)\<lparr>session := Some 1,
               console := ?banner @ [Log ([CHR 0x0A] @ ''hello'')]\<rparr>"
  let ?c1 = "\<lparr>fc_name = ''get_dataset_metadata'', fc_args = ''{name:X}''\<rparr> :: string FunctionCall"
  let ?c2 = "\<lparr>fc_name = ''list_files'', fc_args = ''{dir:/}''\<rparr> :: string FunctionCall"
  let ?r = "\<lparr>response_text = ''Let me look.'', functionCalls = Some [?c1, ?c2]\<rparr>"
  let ?r1 = "\<lparr>content = [ContentItem (Some ''get_dataset_metadata{name:X}'')]\<rparr>"
  let ?f1 = "\<lparr>response_text = ''##Using the following information, answer the original query: get_dataset_metadata{name:X}'',
               functionCalls = None\<rparr> :: string GenerateContentResponse"
  let ?w2 = "?w1\<lparr>session := Some 2\<rparr>"
  let ?w3 = "?w1\<lparr>mcp := 1, console := console ?w1 @ [LogToolResult ?r1], session := Some 3\<rparr>"
  have nq1: "\<not> quit_line ''hello''"
    unfolding is_quit_iff_quit_line [symmetric]
    by (simp add: is_quit_def trim_def toLowerCase_def lower_unit_def is_whitespace_def)
  have nq2: "\<not> quit_line ''describe dataset X''"
    unfolding is_quit_iff_quit_line [symmetric] by (rule not_quit_demo)
  have p1: "processQuery flaky (opened (demo_client 0)) ''hello''
              = (Inr ''hello'', (opened (demo_client 0))\<lparr>session := Some 1\<rparr>)"
    by (simp add: processQuery_def session_sendMessage_def flaky_def flaky_sendMessage_def
        opened_def demo_client_def requested_def)
  have e1: "((opened (demo_client 0))\<lparr>session := Some 1\<rparr>)
              \<lparr>console := console ((opened (demo_client 0))\<lparr>session := Some 1\<rparr>)
                   @ [Log ([CHR 0x0A] @ ''hello'')]\<rparr> = ?w1"
    by (simp add: opened_def demo_client_def)
  have a: "answered flaky (opened (demo_client 0)) [''hello''] ?w1"
    using answered.one [OF nq1 p1, of "[]" ?w1] answered.none [of flaky ?w1] e1 by simp
  have s: "session ?w1 = Some 1"
    by simp
  have m: "sendMessage flaky 1 ''describe dataset X'' = (Inr ?r, 2)"
    by (simp add: flaky_def flaky_sendMessage_def echo_calls_def)
  have r: "(case functionCalls ?r of None \<Rightarrow> [] | Some calls \<Rightarrow> calls) = [?c1] @ ?c2 # []"
    by simp
  have t3: "tool_rounds flaky ?w3 [] [] ?w3"
    by (rule tool_rounds.no_calls)
  have t: "tool_rounds flaky ?w2 [?c1]
      [''[Calling tool get_dataset_metadata with args {name:X}]'', response_text ?f1] ?w3"
    using tool_rounds.round [of flaky ?w2 ?c1 ?r1 1
        "ContentItem (Some ''get_dataset_metadata{name:X}'')" "[]" 2 ?f1 3 "[]" "[]" ?w3] t3
    by (simp add: flaky_def flaky_sendMessage_def demo_client_def numeral_2_eq_2)
  have c: "callTool flaky (mcp ?w3) (fc_name ?c2) (fc_args ?c2) = (Inl (Error ''tool failed''), 2)"
    by (simp add: flaky_def)
  have h: "invocation_fails flaky ?w1 ''describe dataset X'' (Error ''tool failed'')"
    using s m r t c by (rule invocation_fails.tool_call)
  have "chatLoop flaky ([''hello''] @ ''describe dataset X'' # [''list my notebooks''])
          (demo_client 0)
        = (Returned, [''list my notebooks''], ReaderClosed,
           (snd (processQuery flaky ?w1 ''describe dataset X''))
             \<lparr>console := console (snd (processQuery flaky ?w1 ''describe dataset X''))
                  @ [ErrorLog (Error ''tool failed'')]\<rparr>)"
    using C3_failure_ends_the_loop [OF h, of "demo_client 0" "[''hello'']"
        "[''list my notebooks'']"] nq2 a
    by blast
  then show ?thesis
    using a h nq2 by simp
qed

subsection \<open>Facts about the constructor and \<open>connectToServer\<close>\<close>

lemma new_MCPClient_demo:
  "new_MCPClient (stub connected listed called) demo_env = Inr fresh_client"
  by (simp add: new_MCPClient_def demo_env_def fresh_client_def stub_def)

lemma first_names_googleTool:
  "first_names (map googleTool ts) = Inr (map tool_name ts)"
  by (induction ts) (simp_all add: googleTool_def)

lemma connectToServer_catalog_failure:
  assumes "endsWith path ''.js'' \<or> endsWith path ''.py''"
    and "fst (listTools ext (snd (connect ext (mcp this) t))) = Inl e"
    and "t = \<lparr>command = (if endsWith path ''.py''
                          then (if platform env = ''win32'' then ''python'' else ''python3'')
                          else execPath env), args = [path]\<rparr>"
  shows "fst (connectToServer ext env this path) = Inl e
         \<and> tools (snd (connectToServer ext env this path)) = tools this
         \<and> session (snd (connectToServer ext env this path)) = session this
         \<and> mcp (snd (connectToServer ext env this path))
             = snd (listTools ext (snd (connect ext (mcp this) t)))"
  using assms
  by (cases "listTools ext (snd (connect ext (mcp this) t))")
     (auto simp: connectToServer_def processTools_def connect_failed_def log_def Let_def)

lemma new_MCPClient_missing_key:
  "GEMINI_API_KEY env = None \<or> GEMINI_API_KEY env = Some [] \<Longrightarrow>
   new_MCPClient ext env = Inl (Error ''GEMINI_API_KEY is not set'')"
  by (auto simp: new_MCPClient_def)

text \<open>
  C8. \<open>connectToServer\<close> is to pass a failure on to its caller, without a catalog or
  a session, whenever the connection to the provider cannot be established or the
  catalog cannot be fetched; a missing credential is an error of the constructor.
  The constructor and the catalog fetch behave so (the two lemmas above). The
  connection attempt does not: \<open>this.mcp.connect(this.transport)\<close> is not awaited,
  so its rejection never reaches the \<open>catch\<close> that is there to report it. With a
  provider whose \<open>connect\<close> is rejected while \<open>listTools\<close> answers, \<open>connectToServer\<close>
  returns normally and stores a catalog and a chat session.
\<close>

theorem C8_connection_failure_not_propagated:
  "fst (connect (stub (Inl (Error ''connection refused'')) (Inr [demo_tool]) (Inr demo_result))
          (mcp fresh_client) \<lparr>command = ''/usr/bin/node'', args = [''/git/kaggle-nodejs-mcp-server/build/index.js'']\<rparr>)
     = Inl (Error ''connection refused'')
   \<and> connectToServer (stub (Inl (Error ''connection refused'')) (Inr [demo_tool]) (Inr demo_result))
        demo_env fresh_client ''/git/kaggle-nodejs-mcp-server/build/index.js''
     = (Inr (),
        fresh_client\<lparr>transport := Some \<lparr>command = ''/usr/bin/node'', args = [''/git/kaggle-nodejs-mcp-server/build/index.js'']\<rparr>,
                     mcp := 2,
                     tools := [googleTool demo_tool],
                     session := Some 0,
                     console := [LogConnected [''get_dataset_metadata'']]\<rparr>)"
  by (simp add: connectToServer_def endsWith_def stub_def demo_env_def fresh_client_def
      processTools_def googleTool_def demo_tool_def log_def)

subsection \<open>Facts about the end of the loop and of the process\<close>

lemma chatLoop_while_run:
  "\<exists>before this1. answered ext this before this1 \<and>
     ((\<exists>message rest. lines = before @ message # rest \<and> quit_line message
          \<and> chatLoop_while ext lines this = (Break, rest, this1))
      \<or> (\<exists>message rest e this2. lines = before @ message # rest \<and> \<not> quit_line message
          \<and> processQuery ext this1 message = (Inl e, this2)
          \<and> chatLoop_while ext lines this = (Threw e, rest, this2))
      \<or> (lines = before \<and> chatLoop_while ext lines this = (AwaitingInput, [], this1)))"
proof (induction lines arbitrary: this)
  case Nil
  have "answered ext this [] this" by (rule answered.none)
  then show ?case by fastforce
next
  case (Cons message lines)
  have start: "answered ext this [] this" by (rule answered.none)
  show ?case
  proof (cases "quit_line message")
    case True
    then have "chatLoop_while ext (message # lines) this = (Break, lines, this)"
      by (rule chatLoop_while_quit)
    with True start show ?thesis by fastforce
  next
    case False
    obtain r this1 where p: "processQuery ext this message = (r, this1)"
      by (cases "processQuery ext this message")
    show ?thesis
    proof (cases r)
      case (Inl e)
      with p False have "chatLoop_while ext (message # lines) this = (Threw e, lines, this1)"
        by (intro chatLoop_while_failure) simp_all
      with p Inl False start show ?thesis by fastforce
    next
      case (Inr response)
      let ?next = "this1\<lparr>console := console this1 @ [Log ([CHR 0x0A] @ response)]\<rparr>"
      have step: "chatLoop_while ext (message # lines) this = chatLoop_while ext lines ?next"
        using p Inr False by (simp add: is_quit_iff_quit_line log_def newline_def)
      from Cons.IH [of ?next] obtain before this2 where
        a: "answered ext ?next before this2"
        and d: "(\<exists>m rest. lines = before @ m # rest \<and> quit_line m
                  \<and> chatLoop_while ext lines ?next = (Break, rest, this2))
              \<or> (\<exists>m rest e this3. lines = before @ m # rest \<and> \<not> quit_line m
                  \<and> processQuery ext this2 m = (Inl e, this3)
                  \<and> chatLoop_while ext lines ?next = (Threw e, rest, this3))
              \<or> (lines = before \<and> chatLoop_while ext lines ?next = (AwaitingInput, [], this2))"
        by blast
      have a': "answered ext this (message # before) this2"
        using False p Inr a by (intro answered.one) simp_all
      from d have "(\<exists>m rest. message # lines = (message # before) @ m # rest \<and> quit_line m
                  \<and> chatLoop_while ext (message # lines) this = (Break, rest, this2))
              \<or> (\<exists>m rest e this3. message # lines = (message # before) @ m # rest
                  \<and> \<not> quit_line m \<and> processQuery ext this2 m = (Inl e, this3)
                  \<and> chatLoop_while ext (message # lines) this = (Threw e, rest, this3))
              \<or> (message # lines = message # before
                  \<and> chatLoop_while ext (message # lines) this = (AwaitingInput, [], this2))"
        unfolding step by auto
      with a' show ?thesis by blast
    qed
  qed
qed

lemma loop_ends_on_quit:
  "chatLoop_while ext lines this = (Break, rest, this') \<longleftrightarrow>
     (\<exists>before message. lines = before @ message # rest \<and> answered ext this before this'
        \<and> quit_line message)"
proof
  assume l: "chatLoop_while ext lines this = (Break, rest, this')"
  from chatLoop_while_run [of ext this lines] l
  show "\<exists>before message. lines = before @ message # rest \<and> answered ext this before this'
          \<and> quit_line message"
    by auto
next
  assume "\<exists>before message. lines = before @ message # rest \<and> answered ext this before this'
            \<and> quit_line message"
  then obtain before message where
    "lines = before @ message # rest" "answered ext this before this'" "quit_line message"
    by blast
  then show "chatLoop_while ext lines this = (Break, rest, this')"
    using chatLoop_while_answered [of ext this before this' "message # rest"]
      chatLoop_while_quit [of message ext rest this'] by simp
qed

lemma loop_ends_on_failure:
  "chatLoop_while ext lines this = (Threw e, rest, this') \<longleftrightarrow>
     (\<exists>before message this1. lines = before @ message # rest
        \<and> answered ext this before this1 \<and> \<not> quit_line message
        \<and> processQuery ext this1 message = (Inl e, this'))"
proof
  assume l: "chatLoop_while ext lines this = (Threw e, rest, this')"
  from chatLoop_while_run [of ext this lines] l
  show "\<exists>before message this1. lines = before @ message # rest
          \<and> answered ext this before this1 \<and> \<not> quit_line message
          \<and> processQuery ext this1 message = (Inl e, this')"
    by auto
next
  assume "\<exists>before message this1. lines = before @ message # rest
            \<and> answered ext this before this1 \<and> \<not> quit_line message
            \<and> processQuery ext this1 message = (Inl e, this')"
  then obtain before message this1 where
    "lines = before @ message # rest" "answered ext this before this1"
    "\<not> quit_line message" "processQuery ext this1 message = (Inl e, this')"
    by blast
  then show "chatLoop_while ext lines this = (Threw e, rest, this')"
    using chatLoop_while_answered [of ext this before this1 "message # rest"]
      chatLoop_while_failure [of ext this1 message e this' rest] by simp
qed

lemma loop_waits:
  "chatLoop_while ext lines this = (AwaitingInput, rest, this') \<longleftrightarrow>
     rest = [] \<and> answered ext this lines this'"
proof
  assume l: "chatLoop_while ext lines this = (AwaitingInput, rest, this')"
  from chatLoop_while_run [of ext this lines] l
  show "rest = [] \<and> answered ext this lines this'"
    by auto
next
  assume "rest = [] \<and> answered ext this lines this'"
  then show "chatLoop_while ext lines this = (AwaitingInput, rest, this')"
    using chatLoop_while_answered [of ext this lines this' "[]"] by simp
qed

lemma main_finally_closed_then_exit: "main_finally ext this = closed_then_exit ext this"
  by (simp add: main_finally_def cleanup_def closed_then_exit_def split: prod.splits sum.splits)

lemma main_startup_failed:
  "new_MCPClient ext env = Inr client \<Longrightarrow>
   connectAll ext env SERVER_PATHS client = (Inl e, this1) \<Longrightarrow>
   main ext env input = closed_then_exit ext this1"
  by (simp add: main_def main_finally_closed_then_exit)

lemma main_after_loop:
  assumes "new_MCPClient ext env = Inr client"
    and "dropped_rejections ext env SERVER_PATHS client = []"
    and "connectAll ext env SERVER_PATHS client = (Inr u, this1)"
  shows "main ext env input =
           (case chatLoop_while ext input (opened this1) of
              (Break, rest, this2) \<Rightarrow> closed_then_exit ext this2
            | (Threw e, rest, this2) \<Rightarrow>
                closed_then_exit ext (this2\<lparr>console := console this2 @ [ErrorLog e]\<rparr>)
            | (AwaitingInput, rest, this2) \<Rightarrow> (StillRunning, Some this2))"
  using assms
  by (simp add: main_def chatLoop_def chatLoop_started_opened main_finally_closed_then_exit
      log_def split: prod.splits loop_end.splits)

lemma main_quit:
  assumes "new_MCPClient ext env = Inr client"
    and "dropped_rejections ext env SERVER_PATHS client = []"
    and "connectAll ext env SERVER_PATHS client = (Inr (), this1)"
    and "input = before @ message # rest1"
    and "answered ext (opened this1) before this2" and "quit_line message"
  shows "main ext env input = closed_then_exit ext this2"
proof -
  have "chatLoop_while ext input (opened this1) = (Break, rest1, this2)"
    using assms(4,5,6) loop_ends_on_quit [of ext input "opened this1" rest1 this2] by blast
  then show ?thesis
    using main_after_loop [OF assms(1,2,3), of input] by simp
qed

lemma main_failed_query:
  assumes "new_MCPClient ext env = Inr client"
    and "dropped_rejections ext env SERVER_PATHS client = []"
    and "connectAll ext env SERVER_PATHS client = (Inr (), this1)"
    and "input = before @ message # rest1"
    and "answered ext (opened this1) before this2" and "\<not> quit_line message"
    and "processQuery ext this2 message = (Inl e2, this3)"
  shows "main ext env input
           = closed_then_exit ext (this3\<lparr>console := console this3 @ [ErrorLog e2]\<rparr>)"
proof -
  have "chatLoop_while ext input (opened this1) = (Threw e2, rest1, this3)"
    using assms(4,5,6,7) loop_ends_on_failure [of ext input "opened this1" e2 rest1 this3]
    by blast
  then show ?thesis
    using main_after_loop [OF assms(1,2,3), of input] by simp
qed

lemma main_waiting:
  assumes "new_MCPClient ext env = Inr client"
    and "dropped_rejections ext env SERVER_PATHS client = []"
    and "connectAll ext env SERVER_PATHS client = (Inr (), this1)"
    and "answered ext (opened this1) input this2"
  shows "main ext env input = (StillRunning, Some this2)"
proof -
  have "chatLoop_while ext input (opened this1) = (AwaitingInput, [], this2)"
    using assms(4) loop_waits [of ext input "opened this1" "[]" this2] by blast
  then show ?thesis
    using main_after_loop [OF assms(1,2,3), of input] by simp
qed

lemma main_without_client:
  "new_MCPClient ext env = Inl e \<Longrightarrow> main ext env input = (UnhandledRejection e, None)"
  by (simp add: main_def)

lemma echo_query:
  "processQuery echo (c\<lparr>session := Some 0\<rparr>) ''describe dataset X''
   = (Inr (''Let me look.'' @ [CHR 0x0A]
            @ ''[Calling tool get_dataset_metadata with args {name:X}]'' @ [CHR 0x0A]
            @ ''#Using the following information, answer the original query: get_dataset_metadata{name:X}''
            @ [CHR 0x0A]
            @ ''[Calling tool list_files with args {dir:/}]'' @ [CHR 0x0A]
            @ ''##Using the following information, answer the original query: list_files{dir:/}''),
      c\<lparr>session := Some 3, mcp := Suc (Suc (mcp c)),
        console := console c
          @ [LogToolResult \<lparr>content = [ContentItem (Some ''get_dataset_metadata{name:X}'')]\<rparr>,
             LogToolResult \<lparr>content = [ContentItem (Some ''list_files{dir:/}'')]\<rparr>]\<rparr>)"
  by (simp add: processQuery_def session_sendMessage_def echo_def echo_sendMessage_def
      echo_calls_def log_def requested_def mcp_callTool_def calling_line_def
      result_message_def newline_def numeral_2_eq_2 Let_def)

lemma connected_demo:
  "ext = echo \<or> ext = flaky \<Longrightarrow>
   connectAll ext demo_env SERVER_PATHS fresh_client
     = (Inr (),
        fresh_client\<lparr>transport := Some \<lparr>command = ''/usr/bin/node'',
                        args = [''/git/kaggle-nodejs-mcp-server/build/index.js'']\<rparr>,
                     mcp := 2,
                     tools := [googleTool demo_tool],
                     session := Some 0,
                     console := [LogConnected [''get_dataset_metadata'']]\<rparr>)
   \<and> dropped_rejections ext demo_env SERVER_PATHS fresh_client = []
   \<and> new_MCPClient ext demo_env = Inr fresh_client"
  by (auto simp: SERVER_PATHS_def connectToServer_def dropped_connect_def endsWith_def echo_def
      flaky_def demo_env_def fresh_client_def processTools_def googleTool_def demo_tool_def
      log_def new_MCPClient_def)

text \<open>
  C9 as stated: the loop ends exactly when a line is \<open>quit\<close> (case-insensitively,
  trimmed), then the connection is closed and the process exits with code 0, and an
  unhandled error during startup or the loop ends the process abnormally. The code
  differs on two points. The \<open>finally\<close> block of \<open>main\<close> calls \<open>process.exit(0)\<close>
  after every \<open>try\<close>, so a startup whose catalog fetch fails exits with code 0; and
  a failing query ends the loop although no line is \<open>quit\<close>.
\<close>

theorem C9_exit_zero_after_failure_counterexample:
  "fst (connectAll (stub (Inr ()) (Inl (Error ''list failed'')) (Inr demo_result))
          demo_env SERVER_PATHS fresh_client) = Inl (Error ''list failed'')
   \<and> fst (main (stub (Inr ()) (Inl (Error ''list failed'')) (Inr demo_result))
            demo_env [''quit'']) = Exited 0
   \<and> \<not> is_quit ''describe dataset X''
   \<and> fst (chatLoop (stub (Inr ()) (Inr [demo_tool]) (Inl (Error ''tool failed'')))
            [''describe dataset X''] (demo_client 0)) = Returned"
proof -
  let ?extL = "stub (Inr ()) (Inl (Error ''list failed'')) (Inr demo_result)"
  let ?extC = "stub (Inr ()) (Inr [demo_tool]) (Inl (Error ''tool failed''))"
  have c: "connectAll ?extL demo_env SERVER_PATHS fresh_client
             = (Inl (Error ''list failed''),
                fresh_client\<lparr>transport := Some \<lparr>command = ''/usr/bin/node'',
                                args = [''/git/kaggle-nodejs-mcp-server/build/index.js'']\<rparr>,
                     mcp := 2,
                     console := [LogConnectFailed (Error ''list failed'')]\<rparr>)"
    by (simp add: SERVER_PATHS_def connectToServer_def endsWith_def stub_def demo_env_def
        fresh_client_def processTools_def connect_failed_def log_def)
  have f: "fst (main_finally ?extL this) = Exited 0" for this
    by (simp add: main_finally_def cleanup_def stub_def)
  have m: "fst (main ?extL demo_env [''quit'']) = Exited 0"
    using c f by (simp add: main_def new_MCPClient_demo)
  have p: "fst (processQuery ?extC (chatLoop_started (demo_client 0)) ''describe dataset X'')
         = Inl (Error ''tool failed'')"
    by (simp add: processQuery_def session_sendMessage_def stub_def stub_sendMessage_def
        chatLoop_started_def demo_client_def log_def requested_def mcp_callTool_def)
  have l: "fst (chatLoop ?extC [''describe dataset X''] (demo_client 0)) = Returned"
    using p not_quit_demo
    by (cases "processQuery ?extC (chatLoop_started (demo_client 0)) ''describe dataset X''")
       (simp add: chatLoop_def)
  show ?thesis
    using c m l not_quit_demo by simp
qed

text \<open>
  C9, amended. The interactive loop ends at the first line that equals \<open>quit\<close>
  case-insensitively after trimming white space, or at the first query that fails,
  whichever comes first; while neither has come it waits for a line. A missing
  credential ends the process abnormally before anything else. With the client
  constructed and no connection promise rejected: when connecting fails, and when
  the loop ends, by \<open>quit\<close> or by a failed query, the provider connection is closed
  and the process exits with code 0, an error of the closing being the one other
  abnormal end; and while the loop waits the process is still running.
\<close>

theorem C9_loop_end_and_exit_code:
  "(chatLoop_while ext lines this = (Break, rest, this') \<longleftrightarrow>
      (\<exists>before message. lines = before @ message # rest \<and> answered ext this before this'
         \<and> quit_line message))
   \<and> (chatLoop_while ext lines this = (Threw e, rest, this') \<longleftrightarrow>
      (\<exists>before message this1. lines = before @ message # rest
         \<and> answered ext this before this1 \<and> \<not> quit_line message
         \<and> processQuery ext this1 message = (Inl e, this')))
   \<and> (chatLoop_while ext lines this = (AwaitingInput, rest, this') \<longleftrightarrow>
        rest = [] \<and> answered ext this lines this')
   \<and> (new_MCPClient ext env = Inl e \<longrightarrow> main ext env input = (UnhandledRejection e, None))
   \<and> (new_MCPClient ext env = Inr client
        \<and> dropped_rejections ext env SERVER_PATHS client = [] \<longrightarrow>
        (\<forall>e1 this1. connectAll ext env SERVER_PATHS client = (Inl e1, this1) \<longrightarrow>
           main ext env input = closed_then_exit ext this1)
        \<and> (\<forall>this1 before message rest1 this2.
             connectAll ext env SERVER_PATHS client = (Inr (), this1)
             \<and> input = before @ message # rest1
             \<and> answered ext (opened this1) before this2 \<and> quit_line message \<longrightarrow>
             main ext env input = closed_then_exit ext this2)
        \<and> (\<forall>this1 before message rest1 this2 e2 this3.
             connectAll ext env SERVER_PATHS client = (Inr (), this1)
             \<and> input = before @ message # rest1
             \<and> answered ext (opened this1) before this2 \<and> \<not> quit_line message
             \<and> processQuery ext this2 message = (Inl e2, this3) \<longrightarrow>
             main ext env input
               = closed_then_exit ext (this3\<lparr>console := console this3 @ [ErrorLog e2]\<rparr>))
        \<and> (\<forall>this1 this2.
             connectAll ext env SERVER_PATHS client = (Inr (), this1)
             \<and> answered ext (opened this1) input this2 \<longrightarrow>
             main ext env input = (StillRunning, Some this2)))"
proof (intro conjI impI allI)
  show "chatLoop_while ext lines this = (Break, rest, this') \<longleftrightarrow>
      (\<exists>before message. lines = before @ message # rest \<and> answered ext this before this'
         \<and> quit_line message)"
    by (rule loop_ends_on_quit)
  show "chatLoop_while ext lines this = (Threw e, rest, this') \<longleftrightarrow>
      (\<exists>before message this1. lines = before @ message # rest
         \<and> answered ext this before this1 \<and> \<not> quit_line message
         \<and> processQuery ext this1 message = (Inl e, this'))"
    by (rule loop_ends_on_failure)
  show "chatLoop_while ext lines this = (AwaitingInput, rest, this') \<longleftrightarrow>
        rest = [] \<and> answered ext this lines this'"
    by (rule loop_waits)
next
  assume "new_MCPClient ext env = Inl e"
  then show "main ext env input = (UnhandledRejection e, None)"
    by (rule main_without_client)
next
  fix e1 this1
  assume "new_MCPClient ext env = Inr client
        \<and> dropped_rejections ext env SERVER_PATHS client = []"
    and "connectAll ext env SERVER_PATHS client = (Inl e1, this1)"
  then show "main ext env input = closed_then_exit ext this1"
    using main_startup_failed by blast
next
  fix this1 before message rest1 this2
  assume "new_MCPClient ext env = Inr client
        \<and> dropped_rejections ext env SERVER_PATHS client = []"
    and "connectAll ext env SERVER_PATHS client = (Inr (), this1)
             \<and> input = before @ message # rest1
             \<and> answered ext (opened this1) before this2 \<and> quit_line message"
  then show "main ext env input = closed_then_exit ext this2"
    using main_quit [of ext env client this1 input before message rest1 this2] by blast
next
  fix this1 before message rest1 this2 e2 this3
  assume "new_MCPClient ext env = Inr client
        \<and> dropped_rejections ext env SERVER_PATHS client = []"
    and "connectAll ext env SERVER_PATHS client = (Inr (), this1)
             \<and> input = before @ message # rest1
             \<and> answered ext (opened this1) before this2 \<and> \<not> quit_line message
             \<and> processQuery ext this2 message = (Inl e2, this3)"
  then show "main ext env input
               = closed_then_exit ext (this3\<lparr>console := console this3 @ [ErrorLog e2]\<rparr>)"
    using main_failed_query [of ext env client this1 input before message rest1 this2 e2 this3]
    by blast
next
  fix this1 this2
  assume "new_MCPClient ext env = Inr client
        \<and> dropped_rejections ext env SERVER_PATHS client = []"
    and "connectAll ext env SERVER_PATHS client = (Inr (), this1)
             \<and> answered ext (opened this1) input this2"
  then show "main ext env input = (StillRunning, Some this2)"
    using main_waiting [of ext env client this1 input this2] by blast
qed

text \<open>
  Two runs: one that answers a query and ends by \<open>quit\<close>, and one that answers a
  query and ends by a query that fails; both close the connection and exit with
  code 0.
\<close>

theorem C9_loop_end_and_exit_code_witness:
  "new_MCPClient echo demo_env = Inr fresh_client
   \<and> dropped_rejections echo demo_env SERVER_PATHS fresh_client = []
   \<and> fst (connectAll echo demo_env SERVER_PATHS fresh_client) = Inr ()
   \<and> quit_line '' QUIT ''
   \<and> fst (chatLoop_while echo [''describe dataset X'', '' QUIT '', ''more'']
            (opened (snd (connectAll echo demo_env SERVER_PATHS fresh_client)))) = Break
   \<and> fst (snd (chatLoop_while echo [''describe dataset X'', '' QUIT '', ''more'']
            (opened (snd (connectAll echo demo_env SERVER_PATHS fresh_client))))) = [''more'']
   \<and> fst (main echo demo_env [''describe dataset X'', '' QUIT '', ''more'']) = Exited 0
   \<and> map_option mcp (snd (main echo demo_env [''describe dataset X'', '' QUIT '', ''more'']))
       = Some 5
   \<and> new_MCPClient flaky demo_env = Inr fresh_client
   \<and> dropped_rejections flaky demo_env SERVER_PATHS fresh_client = []
   \<and> fst (connectAll flaky demo_env SERVER_PATHS fresh_client) = Inr ()
   \<and> fst (chatLoop_while flaky [''hello'', ''describe dataset X'', ''quit'']
            (opened (snd (connectAll flaky demo_env SERVER_PATHS fresh_client))))
       = Threw (Error ''tool failed'')
   \<and> fst (snd (chatLoop_while flaky [''hello'', ''describe dataset X'', ''quit'']
            (opened (snd (connectAll flaky demo_env SERVER_PATHS fresh_client))))) = [''quit'']
   \<and> fst (main flaky demo_env [''hello'', ''describe dataset X'', ''quit'']) = Exited 0"
proof -
  let ?this1 = "fresh_client\<lparr>transport := Some \<lparr>command = ''/usr/bin/node'',
                        args = [''/git/kaggle-nodejs-mcp-server/build/index.js'']\<rparr>,
                     mcp := 2,
                     tools := [googleTool demo_tool],
                     session := Some 0,
                     console := [LogConnected [''get_dataset_metadata'']]\<rparr>"
  let ?q = "''describe dataset X''"
  have nq: "\<not> quit_line ?q"
    unfolding is_quit_iff_quit_line [symmetric] by (rule not_quit_demo)
  have nh: "\<not> quit_line ''hello''"
    unfolding is_quit_iff_quit_line [symmetric]
    by (simp add: is_quit_def trim_def toLowerCase_def lower_unit_def is_whitespace_def)
  have qq: "quit_line '' QUIT ''"
    unfolding is_quit_iff_quit_line [symmetric] by (rule quit_demo)

  \<comment> \<open>the run that ends by \<open>quit\<close>\<close>
  have ce: "connectAll echo demo_env SERVER_PATHS fresh_client = (Inr (), ?this1)"
    and de: "dropped_rejections echo demo_env SERVER_PATHS fresh_client = []"
    and ne: "new_MCPClient echo demo_env = Inr fresh_client"
    using connected_demo [of echo] by simp_all
  have os: "opened ?this1 = (opened ?this1)\<lparr>session := Some 0\<rparr>"
    by (simp add: opened_def)
  obtain response this2 where
    pe: "processQuery echo (opened ?this1) ?q = (Inr response, this2)"
    and m2: "mcp this2 = 4"
    using echo_query [of "opened ?this1"] os by (simp add: opened_def fresh_client_def)
  let ?this3 = "this2\<lparr>console := console this2 @ [Log ([CHR 0x0A] @ response)]\<rparr>"
  have ae: "answered echo (opened ?this1) [?q] ?this3"
    by (rule answered.one [OF nq pe]) (rule answered.none)
  have le: "chatLoop_while echo [?q, '' QUIT '', ''more''] (opened ?this1)
              = (Break, [''more''], ?this3)"
  proof (rule C9_loop_end_and_exit_code [of echo "[?q, '' QUIT '', ''more'']" "opened ?this1"
        "[''more'']" ?this3, THEN conjunct1, THEN iffD2])
    show "\<exists>before message. [?q, '' QUIT '', ''more''] = before @ message # [''more'']
            \<and> answered echo (opened ?this1) before ?this3 \<and> quit_line message"
      by (intro exI [of _ "[?q]"] exI [of _ "'' QUIT ''"] conjI ae qq) simp
  qed
  have ke: "new_MCPClient echo demo_env = Inr fresh_client
      \<and> dropped_rejections echo demo_env SERVER_PATHS fresh_client = []"
    using ne de by simp
  note pe' = C9_loop_end_and_exit_code [of echo "[]" fresh_client "[]" fresh_client
      "Error []" demo_env "[?q, '' QUIT '', ''more'']" fresh_client,
      THEN conjunct2, THEN conjunct2, THEN conjunct2, THEN conjunct2, THEN mp, OF ke,
      THEN conjunct2, THEN conjunct1, rule_format]
  have "main echo demo_env [?q, '' QUIT '', ''more''] = closed_then_exit echo ?this3"
    by (rule pe' [of ?this1 "[?q]" "'' QUIT ''" "[''more'']" ?this3]) (intro conjI ce ae qq, simp)
  then have me: "main echo demo_env [?q, '' QUIT '', ''more'']
                   = (Exited 0, Some (?this3\<lparr>mcp := 5\<rparr>))"
    using m2 by (simp add: closed_then_exit_def echo_def)

  \<comment> \<open>the run that ends by a failed query\<close>
  have cf: "connectAll flaky demo_env SERVER_PATHS fresh_client = (Inr (), ?this1)"
    and df: "dropped_rejections flaky demo_env SERVER_PATHS fresh_client = []"
    and nf: "new_MCPClient flaky demo_env = Inr fresh_client"
    using connected_demo [of flaky] by simp_all
  have ph: "processQuery flaky (opened ?this1) ''hello''
              = (Inr ''hello'', (opened ?this1)\<lparr>session := Some 1\<rparr>)"
    by (simp add: processQuery_def session_sendMessage_def flaky_def flaky_sendMessage_def
        opened_def requested_def)
  let ?this4 = "(opened ?this1)\<lparr>session := Some 1,
                  console := console (opened ?this1) @ [Log ([CHR 0x0A] @ ''hello'')]\<rparr>"
  have af: "answered flaky (opened ?this1) [''hello''] ?this4"
  proof (rule answered.one [OF nh ph])
    have "((opened ?this1)\<lparr>session := Some 1\<rparr>)
            \<lparr>console := console ((opened ?this1)\<lparr>session := Some 1\<rparr>)
                 @ [Log ([CHR 0x0A] @ ''hello'')]\<rparr> = ?this4"
      by simp
    then show "answered flaky
        (((opened ?this1)\<lparr>session := Some 1\<rparr>)
            \<lparr>console := console ((opened ?this1)\<lparr>session := Some 1\<rparr>)
                 @ [Log ([CHR 0x0A] @ ''hello'')]\<rparr>) [] ?this4"
      using answered.none [of flaky ?this4] by simp
  qed
  have "fst (processQuery flaky ?this4 ?q) = Inl (Error ''tool failed'')"
    by (simp add: processQuery_def session_sendMessage_def flaky_def flaky_sendMessage_def
        echo_calls_def opened_def log_def requested_def mcp_callTool_def calling_line_def
        result_message_def Let_def)
  then have pf: "processQuery flaky ?this4 ?q
                   = (Inl (Error ''tool failed''), snd (processQuery flaky ?this4 ?q))"
    by (metis prod.collapse)
  let ?this5 = "snd (processQuery flaky ?this4 ?q)"
  have lf: "chatLoop_while flaky [''hello'', ?q, ''quit''] (opened ?this1)
              = (Threw (Error ''tool failed''), [''quit''], ?this5)"
  proof (rule C9_loop_end_and_exit_code [of flaky "[''hello'', ?q, ''quit'']" "opened ?this1"
        "[''quit'']" ?this5 "Error ''tool failed''", THEN conjunct2, THEN conjunct1, THEN iffD2])
    show "\<exists>before message this1. [''hello'', ?q, ''quit''] = before @ message # [''quit'']
            \<and> answered flaky (opened ?this1) before this1 \<and> \<not> quit_line message
            \<and> processQuery flaky this1 message = (Inl (Error ''tool failed''), ?this5)"
      by (intro exI [of _ "[''hello'']"] exI [of _ ?q] exI [of _ ?this4] conjI af nq pf) simp
  qed
  have kf: "new_MCPClient flaky demo_env = Inr fresh_client
      \<and> dropped_rejections flaky demo_env SERVER_PATHS fresh_client = []"
    using nf df by simp
  note pf' = C9_loop_end_and_exit_code [of flaky "[]" fresh_client "[]" fresh_client
      "Error []" demo_env "[''hello'', ?q, ''quit'']" fresh_client,
      THEN conjunct2, THEN conjunct2, THEN conjunct2, THEN conjunct2, THEN mp, OF kf,
      THEN conjunct2, THEN conjunct2, THEN conjunct1, rule_format]
  have "main flaky demo_env [''hello'', ?q, ''quit'']
          = closed_then_exit flaky
              (?this5\<lparr>console := console ?this5 @ [ErrorLog (Error ''tool failed'')]\<rparr>)"
    by (rule pf' [of ?this1 "[''hello'']" ?q "[''quit'']" ?this4 "Error ''tool failed''" ?this5])
       (intro conjI cf af nq pf, simp)
  then have mf: "fst (main flaky demo_env [''hello'', ?q, ''quit'']) = Exited 0"
    by (simp add: closed_then_exit_def flaky_def)
  show ?thesis
    using ne de ce qq le me nf df cf lf mf by simp
qed


end
